theory Spec2Isabelle
  imports Main "HOL-Library.AList"
begin

section \<open>JavaScript values\<close>

text \<open>
  The values that travel over the channel and through the handlers. Numbers are the
  integers (identifiers and counters are the only numbers the program handles), a
  \<open>Date\<close> is its millisecond count, an object literal is an association list in the
  order of its keys. Strings are lists of code units below 256.
\<close>

datatype jsval =
    JUndefined
  | JNull
  | JBool bool
  | JNum int
  | JStr string
  | JDate nat
  | JObj "(string \<times> jsval) list"

type_synonym jsobj = "(string \<times> jsval) list"

datatype js_error = TypeError

text \<open>Truthiness, as \<open>!v\<close>, \<open>v || d\<close> and \<open>if (v)\<close> read it.\<close>

fun truthy :: "jsval \<Rightarrow> bool" where
  "truthy JUndefined = False"
| "truthy JNull = False"
| "truthy (JBool b) = b"
| "truthy (JNum n) = (n \<noteq> 0)"
| "truthy (JStr s) = (s \<noteq> [])"
| "truthy (JDate t) = True"
| "truthy (JObj kvs) = True"

definition js_or :: "jsval \<Rightarrow> jsval \<Rightarrow> jsval" where
  "js_or a b = (if truthy a then a else b)"

text \<open>\<open>obj.key\<close> on an object literal: the value stored, or \<open>undefined\<close>.\<close>

definition obj_get :: "jsobj \<Rightarrow> string \<Rightarrow> jsval" where
  "obj_get kvs k = (case map_of kvs k of None \<Rightarrow> JUndefined | Some v \<Rightarrow> v)"

text \<open>
  \<open>v.key\<close> on any value: reading a property of \<open>undefined\<close> or \<open>null\<close> throws, a
  primitive has none of the keys the program reads.
\<close>

fun get_member :: "jsval \<Rightarrow> string \<Rightarrow> js_error + jsval" where
  "get_member JUndefined k = Inl TypeError"
| "get_member JNull k = Inl TypeError"
| "get_member (JObj kvs) k = Inr (obj_get kvs k)"
| "get_member v k = Inr JUndefined"

text \<open>
  \<open>String.prototype.trim\<close> strips white space and line terminators from both ends:
  tab, line feed, vertical tab, form feed, carriage return, space and no-break space
  are the ones among the code units below 256.
\<close>

definition is_js_space :: "char \<Rightarrow> bool" where
  "is_js_space c = (c \<in> set [CHR 0x09, CHR 0x0A, CHR 0x0B, CHR 0x0C, CHR 0x0D, CHR 0x20, CHR 0xA0])"

definition trim :: "string \<Rightarrow> string" where
  "trim s = rev (dropWhile is_js_space (rev (dropWhile is_js_space s)))"

text \<open>\<open>v.trim()\<close>: only a string has the method, on anything else the call throws.\<close>

fun call_trim :: "jsval \<Rightarrow> js_error + string" where
  "call_trim (JStr s) = Inr (trim s)"
| "call_trim v = Inl TypeError"

section \<open>Server: the persistence store\<close>

text \<open>
  A stored record of the \<open>Message\<close> model: the generated id, the two columns and the two
  timestamps.
\<close>

record message_row =
  row_id :: nat
  row_username :: string
  row_text :: string
  row_createdAt :: nat
  row_updatedAt :: nat

text \<open>
  \<open>Message.create\<close> is the store's operation: from the store and the attributes
  \<open>{username, text}\<close> it gives the stored record or throws an error with a message,
  and the store after the call.
\<close>

type_synonym 'db create_fn = "'db \<Rightarrow> jsval \<Rightarrow> jsval \<Rightarrow> (string + message_row) \<times> 'db"

datatype db_result = DbOk message_row | DbFail string

text \<open>\<open>DatabaseAdapter.saveMessage\<close>: the argument is \<open>{username, text}\<close>.\<close>

definition saveMessage :: "'db create_fn \<Rightarrow> 'db \<Rightarrow> jsval \<Rightarrow> jsval \<Rightarrow> db_result \<times> 'db" where
  "saveMessage create d username text =
     (case create d (js_or username (JStr ''Anonymous'')) text of
        (Inr saved, d') \<Rightarrow> (DbOk saved, d')
      | (Inl message, d') \<Rightarrow> (DbFail message, d'))"

text \<open>An in-memory store: records in insertion order, ids counted up, never failing.\<close>

record mem_db =
  rows :: "message_row list"
  next_id :: nat
  clock :: nat

fun js_to_string :: "jsval \<Rightarrow> string" where
  "js_to_string (JStr s) = s"
| "js_to_string v = []"

definition mem_create :: "mem_db create_fn" where
  "mem_create d username text =
     (let r = \<lparr>row_id = next_id d, row_username = js_to_string username,
               row_text = js_to_string text, row_createdAt = clock d, row_updatedAt = clock d\<rparr>
      in (Inr r, d\<lparr>rows := rows d @ [r], next_id := Suc (next_id d)\<rparr>))"

text \<open>A store that cannot be reached: every create throws, nothing is stored.\<close>

definition down_create :: "mem_db create_fn" where
  "down_create d username text = (Inl ''connect ECONNREFUSED'', d)"

section \<open>Server: the session registry\<close>

type_synonym socket_id = string

record client_entry =
  socket :: socket_id
  connectedAt :: nat

text \<open>
  The server's state: the adapter's \<open>clients\<close> map (a JavaScript \<open>Map\<close>, in insertion
  order), the sockets the channel library itself holds connected (what \<open>io.emit\<close> and
  \<open>socket.broadcast.emit\<close> range over), and the store.
\<close>

record 'db server_state =
  clients :: "(socket_id \<times> client_entry) list"
  io_sockets :: "socket_id list"
  db :: 'db

text \<open>What the server sends: an event to one session, or an acknowledgement to one.\<close>

datatype outmsg =
    Emit socket_id string jsobj
  | Ack socket_id jsobj

definition handleConnection :: "nat \<Rightarrow> socket_id \<Rightarrow> 'db server_state \<Rightarrow> 'db server_state" where
  "handleConnection now sid st =
     st\<lparr>clients := AList.update sid \<lparr>socket = sid, connectedAt = now\<rparr> (clients st)\<rparr>"

definition handleDisconnection :: "socket_id \<Rightarrow> 'db server_state \<Rightarrow> 'db server_state" where
  "handleDisconnection socketId st =
     (if map_of (clients st) socketId \<noteq> None
      then st\<lparr>clients := AList.delete socketId (clients st)\<rparr>
      else st)"

text \<open>\<open>io.emit\<close>: to every connected socket.\<close>

definition io_emit :: "socket_id list \<Rightarrow> string \<Rightarrow> jsobj \<Rightarrow> outmsg list" where
  "io_emit socks ev data = map (\<lambda>t. Emit t ev data) socks"

text \<open>\<open>socket.broadcast.emit\<close>: to every connected socket but this one.\<close>

definition socket_broadcast_emit :: "socket_id list \<Rightarrow> socket_id \<Rightarrow> string \<Rightarrow> jsobj \<Rightarrow> outmsg list" where
  "socket_broadcast_emit socks self ev data = map (\<lambda>t. Emit t ev data) (filter (\<lambda>t. t \<noteq> self) socks)"

definition broadcast :: "'db server_state \<Rightarrow> string \<Rightarrow> jsobj \<Rightarrow> outmsg list" where
  "broadcast st ev data = io_emit (io_sockets st) ev data"

definition sendToClient :: "'db server_state \<Rightarrow> socket_id \<Rightarrow> string \<Rightarrow> jsobj \<Rightarrow> bool \<times> outmsg list" where
  "sendToClient st socketId ev data =
     (case map_of (clients st) socketId of
        Some client \<Rightarrow> (True, [Emit (socket client) ev data])
      | None \<Rightarrow> (False, []))"

definition broadcastExcept :: "'db server_state \<Rightarrow> socket_id \<Rightarrow> string \<Rightarrow> jsobj \<Rightarrow> outmsg list" where
  "broadcastExcept st senderSocketId ev data =
     (case map_of (clients st) senderSocketId of
        Some sender \<Rightarrow> socket_broadcast_emit (io_sockets st) (socket sender) ev data
      | None \<Rightarrow> [])"

definition getConnectedClients :: "'db server_state \<Rightarrow> socket_id list" where
  "getConnectedClients st = map fst (clients st)"

definition getClientCount :: "'db server_state \<Rightarrow> nat" where
  "getClientCount st = length (clients st)"

text \<open>The sessions that a list of outputs reaches with events.\<close>

fun recipients :: "outmsg list \<Rightarrow> socket_id list" where
  "recipients [] = []"
| "recipients (Emit t ev data # os) = t # recipients os"
| "recipients (Ack t a # os) = recipients os"

section \<open>Server: the message service\<close>

datatype send_result =
    Failure string string
  | Success message_row jsobj

definition broadcastData_of :: "message_row \<Rightarrow> jsobj" where
  "broadcastData_of r =
     [(''id'', JNum (int (row_id r))),
      (''sender'', JStr (row_username r)),
      (''text'', JStr (row_text r)),
      (''createdAt'', JDate (row_createdAt r)),
      (''isBroadcast'', JBool True)]"

text \<open>
  \<open>MessageService.sendMessage\<close>. The result is the thrown error, or the returned
  object with the state after the call and what was sent. A socket id is a string or
  \<open>null\<close>, and the empty string is as falsy as \<open>null\<close>.
\<close>

definition sendMessage ::
  "'db create_fn \<Rightarrow> 'db server_state \<Rightarrow> jsval \<Rightarrow> socket_id option \<Rightarrow>
     js_error + (send_result \<times> 'db server_state \<times> outmsg list)" where
  "sendMessage create st messageData senderSocketId =
     (case get_member messageData ''text'' of
        Inl e \<Rightarrow> Inl e
      | Inr text \<Rightarrow>
          if \<not> truthy text
          then Inr (Failure ''Message cannot be empty'' ''VALIDATION_ERROR'', st, [])
          else (case call_trim text of
             Inl e \<Rightarrow> Inl e
           | Inr trimmed \<Rightarrow>
               if trimmed = []
               then Inr (Failure ''Message cannot be empty'' ''VALIDATION_ERROR'', st, [])
               else (case get_member messageData ''username'' of
                  Inl e \<Rightarrow> Inl e
                | Inr username \<Rightarrow>
                    (case saveMessage create (db st) (js_or username (JStr ''Anonymous'')) (JStr trimmed) of
                       (DbFail err, d') \<Rightarrow>
                         Inr (Failure (if err \<noteq> [] then err else ''Failed to save message'') ''DATABASE_ERROR'',
                              st\<lparr>db := d'\<rparr>, [])
                     | (DbOk saved, d') \<Rightarrow>
                         (let broadcastData = broadcastData_of saved;
                              st' = st\<lparr>db := d'\<rparr>;
                              sent = (case senderSocketId of
                                        Some sid \<Rightarrow>
                                          if sid \<noteq> []
                                          then broadcastExcept st' sid ''chat message'' broadcastData
                                          else broadcast st' ''chat message'' broadcastData
                                      | None \<Rightarrow> broadcast st' ''chat message'' broadcastData)
                          in Inr (Success saved broadcastData, st', sent))))))"

section \<open>Server: the connection handlers\<close>

text \<open>
  The listener of \<open>chat message\<close> on the socket \<open>sid\<close>; \<open>hasAck\<close> tells whether the
  client sent an acknowledgement callback along. The \<open>catch\<close> branch is the one for an
  error thrown by \<open>sendMessage\<close>. The listener is taken to run to its end before the
  next event is handled.
\<close>

definition on_chat_message ::
  "'db create_fn \<Rightarrow> socket_id \<Rightarrow> jsval \<Rightarrow> bool \<Rightarrow> 'db server_state \<Rightarrow> 'db server_state \<times> outmsg list" where
  "on_chat_message create sid data hasAck st =
     (case sendMessage create st data (Some sid) of
        Inl err \<Rightarrow>
          (st, if hasAck
               then [Ack sid [(''status'', JStr ''error''), (''message'', JStr ''Internal server error'')]]
               else [])
      | Inr (Success saved broadcastData, st', sent) \<Rightarrow>
          (st', sent @
             (if hasAck
              then [Ack sid [(''status'', JStr ''success''),
                             (''messageId'', JNum (int (row_id saved))),
                             (''sender'', JStr (row_username saved)),
                             (''text'', JStr (row_text saved)),
                             (''timestamp'', JDate (row_createdAt saved)),
                             (''code'', JStr ''MESSAGE_SENT'')]]
                   @ snd (sendToClient st' sid ''chat message'' (broadcastData @ [(''isOwnMessage'', JBool True)]))
              else []))
      | Inr (Failure err code, st', sent) \<Rightarrow>
          (st', sent @
             (if hasAck
              then [Ack sid [(''status'', JStr ''error''), (''message'', JStr err), (''code'', JStr code)]]
              else [])))"

text \<open>
  What reaches the server: a socket connects (the library adds it to its connected
  sockets and calls the \<open>connection\<close> listener), a connected socket sends a named event
  with a payload, a socket disconnects (the library drops it and calls the socket's
  \<open>disconnect\<close> listener). The \<open>connection\<close> listener registers two listeners on the
  socket, for \<open>chat message\<close> and for \<open>disconnect\<close>; an event of any other name has no
  listener and is dropped.
\<close>

datatype server_event =
    Connection nat socket_id
  | ClientEvent socket_id string jsval bool
  | Disconnect socket_id

fun server_step :: "'db create_fn \<Rightarrow> server_event \<Rightarrow> 'db server_state \<Rightarrow> 'db server_state \<times> outmsg list" where
  "server_step create (Connection now sid) st =
     (handleConnection now sid (st\<lparr>io_sockets := io_sockets st @ [sid]\<rparr>), [])"
| "server_step create (ClientEvent sid ev data hasAck) st =
     (if ev = ''chat message'' then on_chat_message create sid data hasAck st else (st, []))"
| "server_step create (Disconnect sid) st =
     (handleDisconnection sid (st\<lparr>io_sockets := removeAll sid (io_sockets st)\<rparr>), [])"

fun server_run :: "'db create_fn \<Rightarrow> server_event list \<Rightarrow> 'db server_state \<Rightarrow> 'db server_state \<times> outmsg list" where
  "server_run create [] st = (st, [])"
| "server_run create (e # es) st =
     (let (st1, out1) = server_step create e st;
          (st2, out2) = server_run create es st1
      in (st2, out1 @ out2))"

definition server_init :: "'db \<Rightarrow> 'db server_state" where
  "server_init d = \<lparr>clients = [], io_sockets = [], db = d\<rparr>"

text \<open>
  The registry agrees with the channel library: the registered sessions are the
  connected sockets, each registered once and under its own id.
\<close>

definition registry_inv :: "'db server_state \<Rightarrow> bool" where
  "registry_inv st \<longleftrightarrow>
     map fst (clients st) = io_sockets st \<and> distinct (io_sockets st) \<and>
     list_all (\<lambda>(k, c). socket c = k) (clients st)"

section \<open>Client: the message list\<close>

text \<open>
  The status text of a list entry. The source writes each as a marked string:
  \<open>Sending...\<close>, \<open>Delivered\<close>, the cross followed by the error text, \<open>Retrying...\<close>,
  \<open>Delivered (Retried)\<close>, \<open>Sent\<close> and \<open>Received\<close>.
\<close>

datatype status_text =
    Sending
  | Delivered
  | Failed jsval
  | Retrying
  | DeliveredRetried
  | Sent
  | Received

text \<open>
  The retry button of an entry: its \<open>disabled\<close> flag, its label, and the sender and
  text its click handler closes over.
\<close>

record retry_button =
  disabled :: bool
  label :: string
  bound_username :: string
  bound_text :: string

text \<open>
  A list entry (an \<open>li\<close> element): the sender and text of its content line, its class
  list, and in its meta line the time, the status span and the retry button; last its
  \<open>dataset.messageId\<close>.
\<close>

record li_elem =
  content_sender :: jsval
  content_text :: jsval
  classList :: "string list"
  meta_time :: jsval
  status :: "status_text option"
  retry :: "retry_button option"
  messageId :: jsval

definition classList_add :: "string \<Rightarrow> li_elem \<Rightarrow> li_elem" where
  "classList_add c li = (if c \<in> set (classList li) then li else li\<lparr>classList := classList li @ [c]\<rparr>)"

definition classList_remove :: "string \<Rightarrow> li_elem \<Rightarrow> li_elem" where
  "classList_remove c li = li\<lparr>classList := removeAll c (classList li)\<rparr>"

text \<open>
  \<open>createMessageElement\<close>, from the fields of its argument. No caller passes a
  \<open>serverTime\<close>, so the span for it is never built.
\<close>

definition createMessageElement ::
  "string \<Rightarrow> jsval \<Rightarrow> jsval \<Rightarrow> jsval \<Rightarrow> jsval \<Rightarrow> bool \<Rightarrow> status_text \<Rightarrow> li_elem" where
  "createMessageElement myName msg_id sender text createdAt isPending msg_status =
     \<lparr>content_sender = sender,
      content_text = text,
      classList = (if isPending then [''pending''] else if sender = JStr myName then [''me''] else []),
      meta_time = createdAt,
      status = Some msg_status,
      retry = None,
      messageId = msg_id\<rparr>"

text \<open>
  The argument of \<open>updateMessageElement\<close>: each field is there or not. The function
  reads neither \<open>serverTime\<close> nor \<open>code\<close>.
\<close>

record updates =
  u_id :: "jsval option"
  u_sender :: "jsval option"
  u_text :: "jsval option"
  u_createdAt :: "jsval option"
  u_status :: "status_text option"

definition no_updates :: updates where
  "no_updates = \<lparr>u_id = None, u_sender = None, u_text = None, u_createdAt = None, u_status = None\<rparr>"

definition given :: "jsval option \<Rightarrow> bool" where
  "given v = (case v of None \<Rightarrow> False | Some x \<Rightarrow> truthy x)"

text \<open>
  \<open>updateMessageElement\<close>. Setting the meta line's text for a new time removes its
  children, the status span and the button; the status span is then made again. A
  \<open>createdAt\<close> that is given is a \<open>Date\<close> object, which is truthy whatever it was
  built from.
\<close>

definition updateMessageElement :: "updates \<Rightarrow> li_elem \<Rightarrow> li_elem" where
  "updateMessageElement u li =
     (let li1 = (if given (u_sender u) \<and> given (u_text u)
                 then li\<lparr>content_sender := the (u_sender u), content_text := the (u_text u)\<rparr>
                 else li);
          li2 = (case u_createdAt u of
                   Some t \<Rightarrow> li1\<lparr>meta_time := t, status := None, retry := None\<rparr>
                 | None \<Rightarrow> li1);
          li3 = (case u_status u of
                   Some s \<Rightarrow> li2\<lparr>status := Some s\<rparr>
                 | None \<Rightarrow> li2)
      in (if given (u_id u) then li3\<lparr>messageId := the (u_id u)\<rparr> else li3))"

section \<open>Client: the application state\<close>

record pending =
  p_li :: nat
  p_username :: string
  p_text :: string

text \<open>
  The acknowledgement callbacks the channel holds until the server answers: the one
  \<open>sendMessage\<close> registers calls \<open>handleAcknowledgement\<close> with its \<open>tempId\<close>, the one
  a retry registers works on its entry.
\<close>

datatype ack_closure = SendAck string | RetryAck nat

text \<open>
  The state of the page: the variables of the script, the input fields, the entries
  (by reference) and the list of children of \<open>messagesEl\<close>, the callbacks waiting
  for their acknowledgement, and the typing indicator (the user shown and whether
  it is displayed). \<open>typingTimeout\<close> is the time at which the pending timer fires,
  or \<open>None\<close> when none is pending.
\<close>

record client_state =
  myName :: string
  usernameInput :: string
  msgInput :: string
  pendingMessages :: "string \<rightharpoonup> pending"
  tempIdCounter :: nat
  isTyping :: bool
  typingTimeout :: "nat option"
  elems :: "nat \<rightharpoonup> li_elem"
  next_elem :: nat
  messagesEl :: "nat list"
  acks :: "nat \<rightharpoonup> ack_closure"
  next_ack :: nat
  typing_indicator :: "(jsval \<times> bool) option"

datatype notice =
    PleaseEnterName
  | NameSetTo string
  | PleaseEnterMessage
  | MessageSentAt jsval
  | FailedToSend jsval

text \<open>
  What the client does to the outside: an event on the socket, with the number of the
  acknowledgement callback registered for it if there is one, or a notification.
\<close>

datatype client_out =
    SocketEmit string jsobj "nat option"
  | Notify notice bool

fun show_nat :: "nat \<Rightarrow> string" where
  "show_nat n = (if n < 10 then [char_of (48 + n)] else show_nat (n div 10) @ [char_of (48 + n mod 10)])"

declare show_nat.simps [simp del]

definition upd_elem :: "nat \<Rightarrow> (li_elem \<Rightarrow> li_elem) \<Rightarrow> client_state \<Rightarrow> client_state" where
  "upd_elem l f st = (case elems st l of
                        Some e \<Rightarrow> st\<lparr>elems := (elems st)(l \<mapsto> f e)\<rparr>
                      | None \<Rightarrow> st)"

definition setUsername :: "client_state \<Rightarrow> client_state \<times> client_out list" where
  "setUsername st =
     (let name = trim (usernameInput st)
      in if name = [] then (st, [Notify PleaseEnterName True])
         else (st\<lparr>myName := name\<rparr>, [Notify (NameSetTo name) False]))"

section \<open>Client: typing presence\<close>

definition handleTyping :: "nat \<Rightarrow> client_state \<Rightarrow> client_state \<times> client_out list" where
  "handleTyping now st =
     (if myName st = [] then (st, [])
      else
        let (st1, out) =
              (if \<not> isTyping st
               then (st\<lparr>isTyping := True\<rparr>, [SocketEmit ''typing'' [(''username'', JStr (myName st))] None])
               else (st, []))
        in (st1\<lparr>typingTimeout := Some (now + 1000)\<rparr>, out))"

text \<open>The function the timer runs.\<close>

definition typing_timer_callback :: "client_state \<Rightarrow> client_state \<times> client_out list" where
  "typing_timer_callback st =
     (if isTyping st
      then (st\<lparr>isTyping := False\<rparr>, [SocketEmit ''stop_typing'' [(''username'', JStr (myName st))] None])
      else (st, []))"

text \<open>A timer fires once, and only when it is pending and its delay has passed.\<close>

definition typing_timer_fires :: "nat \<Rightarrow> client_state \<Rightarrow> client_state \<times> client_out list" where
  "typing_timer_fires now st =
     (case typingTimeout st of
        Some due \<Rightarrow> if due \<le> now then typing_timer_callback (st\<lparr>typingTimeout := None\<rparr>) else (st, [])
      | None \<Rightarrow> (st, []))"

definition showTypingIndicator :: "jsval \<Rightarrow> jsval \<Rightarrow> client_state \<Rightarrow> client_state" where
  "showTypingIndicator user typing st =
     (if truthy typing then st\<lparr>typing_indicator := Some (user, True)\<rparr>
      else (case typing_indicator st of
              Some (u, shown) \<Rightarrow> st\<lparr>typing_indicator := Some (u, False)\<rparr>
            | None \<Rightarrow> st))"

definition on_user_typing :: "jsobj \<Rightarrow> client_state \<Rightarrow> client_state" where
  "on_user_typing data st =
     (if obj_get data ''user'' \<noteq> JStr (myName st)
      then showTypingIndicator (obj_get data ''user'') (obj_get data ''isTyping'') st
      else st)"

section \<open>Client: sending, acknowledgement, retry\<close>

text \<open>The client's \<open>sendMessage\<close>, at the time \<open>now\<close>.\<close>

definition client_sendMessage :: "nat \<Rightarrow> client_state \<Rightarrow> client_state \<times> client_out list" where
  "client_sendMessage now st =
     (let text = trim (msgInput st);
          username = trim (if myName st \<noteq> [] then myName st
                           else if usernameInput st \<noteq> [] then usernameInput st
                           else ''Anonymous'')
      in if text = [] then (st, [Notify PleaseEnterMessage True])
         else
           let (st1, out1) =
                 (if isTyping st
                  then (st\<lparr>isTyping := False, typingTimeout := None\<rparr>,
                        [SocketEmit ''stop_typing'' [(''username'', JStr (myName st))] None])
                  else (st, []));
               tempId = ''temp-'' @ show_nat (tempIdCounter st1);
               li = createMessageElement (myName st1) (JStr tempId) (JStr username) (JStr text)
                      (JDate now) True Sending;
               l = next_elem st1;
               k = next_ack st1
           in (st1\<lparr>tempIdCounter := Suc (tempIdCounter st1),
                    elems := (elems st1)(l \<mapsto> li),
                    next_elem := Suc l,
                    messagesEl := messagesEl st1 @ [l],
                    pendingMessages := (pendingMessages st1)(tempId \<mapsto> \<lparr>p_li = l, p_username = username, p_text = text\<rparr>),
                    acks := (acks st1)(k \<mapsto> SendAck tempId),
                    next_ack := Suc k,
                    msgInput := []\<rparr>,
               out1 @ [SocketEmit ''chat message'' [(''username'', JStr username), (''text'', JStr text)] (Some k)]))"

definition handleKeyPress :: "string \<Rightarrow> nat \<Rightarrow> client_state \<Rightarrow> client_state \<times> client_out list" where
  "handleKeyPress key now st = (if key = ''Enter'' then client_sendMessage now st else (st, []))"

definition addRetryButton :: "string \<Rightarrow> string \<Rightarrow> li_elem \<Rightarrow> li_elem" where
  "addRetryButton username text li =
     li\<lparr>retry := Some \<lparr>disabled = False, label = ''Retry'', bound_username = username, bound_text = text\<rparr>\<rparr>"

definition handleAcknowledgement :: "string \<Rightarrow> jsobj \<Rightarrow> client_state \<Rightarrow> client_state \<times> client_out list" where
  "handleAcknowledgement tempId acknowledgement st =
     (case pendingMessages st tempId of
        None \<Rightarrow> (st, [])
      | Some pending \<Rightarrow>
          let st1 = st\<lparr>pendingMessages := (pendingMessages st)(tempId := None)\<rparr>
          in if obj_get acknowledgement ''status'' = JStr ''success''
             then (upd_elem (p_li pending)
                     (classList_add ''me'' \<circ> classList_remove ''pending'' \<circ>
                      updateMessageElement
                        \<lparr>u_id = Some (obj_get acknowledgement ''messageId''),
                         u_sender = Some (obj_get acknowledgement ''sender''),
                         u_text = Some (obj_get acknowledgement ''text''),
                         u_createdAt = Some (obj_get acknowledgement ''timestamp''),
                         u_status = Some Delivered\<rparr>) st1,
                   [Notify (MessageSentAt (obj_get acknowledgement ''serverTime'')) False])
             else
               let reason = js_or (obj_get acknowledgement ''message'') (obj_get acknowledgement ''error'')
               in (upd_elem (p_li pending)
                     (addRetryButton (p_username pending) (p_text pending) \<circ>
                      updateMessageElement (no_updates\<lparr>u_status := Some (Failed reason)\<rparr>) \<circ>
                      classList_add ''error'' \<circ> classList_remove ''pending'') st1,
                   [Notify (FailedToSend reason) True]))"

text \<open>
  The click handler of the retry button of the entry \<open>l\<close>. A disabled button receives
  no click, and neither does one that was removed.
\<close>

definition retry_click :: "nat \<Rightarrow> client_state \<Rightarrow> client_state \<times> client_out list" where
  "retry_click l st =
     (case elems st l of
        None \<Rightarrow> (st, [])
      | Some li \<Rightarrow>
          (case retry li of
             None \<Rightarrow> (st, [])
           | Some btn \<Rightarrow>
               if disabled btn then (st, [])
               else
                 let li1 = li\<lparr>retry := Some (btn\<lparr>disabled := True, label := ''Retrying...''\<rparr>)\<rparr>;
                     li2 = updateMessageElement (no_updates\<lparr>u_status := Some Retrying\<rparr>)
                             (classList_add ''pending'' (classList_remove ''error'' li1));
                     k = next_ack st
                 in (st\<lparr>elems := (elems st)(l \<mapsto> li2),
                         acks := (acks st)(k \<mapsto> RetryAck l),
                         next_ack := Suc k\<rparr>,
                     [SocketEmit ''chat message''
                        [(''username'', JStr (bound_username btn)), (''text'', JStr (bound_text btn))]
                        (Some k)])))"

text \<open>The acknowledgement callback of a retry of the entry \<open>l\<close>.\<close>

definition retry_ack :: "nat \<Rightarrow> jsobj \<Rightarrow> client_state \<Rightarrow> client_state \<times> client_out list" where
  "retry_ack l acknowledgement st =
     (if obj_get acknowledgement ''status'' = JStr ''success''
      then (upd_elem l
              ((\<lambda>li. li\<lparr>retry := None\<rparr>) \<circ> classList_add ''me'' \<circ> classList_remove ''pending'' \<circ>
               updateMessageElement (no_updates\<lparr>u_status := Some DeliveredRetried\<rparr>)) st, [])
      else (upd_elem l
              ((\<lambda>li. li\<lparr>retry := map_option (\<lambda>btn. btn\<lparr>disabled := False, label := ''Retry''\<rparr>) (retry li)\<rparr>) \<circ>
               updateMessageElement (no_updates\<lparr>u_status := Some (Failed (obj_get acknowledgement ''message''))\<rparr>) \<circ>
               classList_add ''error'' \<circ> classList_remove ''pending'') st, []))"

text \<open>
  An acknowledgement arrives for the callback number \<open>k\<close>: the channel calls the
  callback it holds under that number, once, and forgets it.
\<close>

definition ack_received :: "nat \<Rightarrow> jsobj \<Rightarrow> client_state \<Rightarrow> client_state \<times> client_out list" where
  "ack_received k acknowledgement st =
     (case acks st k of
        None \<Rightarrow> (st, [])
      | Some (SendAck tempId) \<Rightarrow> handleAcknowledgement tempId acknowledgement (st\<lparr>acks := (acks st)(k := None)\<rparr>)
      | Some (RetryAck l) \<Rightarrow> retry_ack l acknowledgement (st\<lparr>acks := (acks st)(k := None)\<rparr>))"

section \<open>Client: incoming messages\<close>

definition handleIncomingMessage :: "jsobj \<Rightarrow> client_state \<Rightarrow> client_state \<times> client_out list" where
  "handleIncomingMessage msg st =
     (if obj_get msg ''sender'' = JStr (myName st) \<and> truthy (obj_get msg ''isBroadcast'')
           \<and> \<not> truthy (obj_get msg ''isOwnMessage'')
      then (st, [])
      else
        let li = createMessageElement (myName st) (obj_get msg ''id'') (obj_get msg ''sender'')
                   (obj_get msg ''text'') (obj_get msg ''createdAt'') False
                   (if truthy (obj_get msg ''isOwnMessage'') then Sent else Received);
            li' = (if obj_get msg ''sender'' = JStr (myName st) then classList_add ''me'' li else li);
            l = next_elem st
        in (st\<lparr>elems := (elems st)(l \<mapsto> li'), next_elem := Suc l, messagesEl := messagesEl st @ [l]\<rparr>, []))"

section \<open>Client: the events of the page\<close>

datatype client_event =
    UsernameTyped string
  | SetUsernameClick
  | MessageInput string
  | SendClick
  | KeyPress string
  | TypingTimer
  | AckReceived nat jsobj
  | RetryClick nat
  | ChatMessage jsobj
  | UserTyping jsobj

text \<open>One event at the time \<open>now\<close>; \<open>MessageInput v\<close> is the \<open>input\<close> event that leaves the message field at \<open>v\<close>.\<close>

fun client_step :: "nat \<times> client_event \<Rightarrow> client_state \<Rightarrow> client_state \<times> client_out list" where
  "client_step (now, UsernameTyped v) st = (st\<lparr>usernameInput := v\<rparr>, [])"
| "client_step (now, SetUsernameClick) st = setUsername st"
| "client_step (now, MessageInput v) st = handleTyping now (st\<lparr>msgInput := v\<rparr>)"
| "client_step (now, SendClick) st = client_sendMessage now st"
| "client_step (now, KeyPress key) st = handleKeyPress key now st"
| "client_step (now, TypingTimer) st = typing_timer_fires now st"
| "client_step (now, AckReceived k a) st = ack_received k a st"
| "client_step (now, RetryClick l) st = retry_click l st"
| "client_step (now, ChatMessage msg) st = handleIncomingMessage msg st"
| "client_step (now, UserTyping data) st = (on_user_typing data st, [])"

fun client_run :: "(nat \<times> client_event) list \<Rightarrow> client_state \<Rightarrow> client_state \<times> client_out list" where
  "client_run [] st = (st, [])"
| "client_run (e # es) st =
     (let (st1, out1) = client_step e st;
          (st2, out2) = client_run es st1
      in (st2, out1 @ out2))"

text \<open>The page as the script leaves it when loaded, with the name found in local storage.\<close>

definition client_init :: "string \<Rightarrow> client_state" where
  "client_init name =
     \<lparr>myName = name, usernameInput = name, msgInput = [], pendingMessages = Map.empty,
      tempIdCounter = 1, isTyping = False, typingTimeout = None, elems = Map.empty,
      next_elem = 0, messagesEl = [], acks = Map.empty, next_ack = 0, typing_indicator = None\<rparr>"

text \<open>The typing signals among the client's outputs, in order: \<open>True\<close> for start, \<open>False\<close> for stop.\<close>

fun typing_signals :: "client_out list \<Rightarrow> bool list" where
  "typing_signals [] = []"
| "typing_signals (SocketEmit ev data k # os) =
     (if ev = ''typing'' then True # typing_signals os
      else if ev = ''stop_typing'' then False # typing_signals os
      else typing_signals os)"
| "typing_signals (Notify n e # os) = typing_signals os"

section \<open>Scenarios and auxiliary notions\<close>

text \<open>The acknowledgements among the server's outputs, with the session each goes to.\<close>

fun acks_of :: "outmsg list \<Rightarrow> (socket_id \<times> jsobj) list" where
  "acks_of [] = []"
| "acks_of (Emit t ev data # os) = acks_of os"
| "acks_of (Ack t a # os) = (t, a) # acks_of os"

text \<open>The object the handler passes to the callback after a successful send.\<close>

definition success_ack :: "message_row \<Rightarrow> jsobj" where
  "success_ack saved =
     [(''status'', JStr ''success''),
      (''messageId'', JNum (int (row_id saved))),
      (''sender'', JStr (row_username saved)),
      (''text'', JStr (row_text saved)),
      (''timestamp'', JDate (row_createdAt saved)),
      (''code'', JStr ''MESSAGE_SENT'')]"

text \<open>The server after the sessions \<open>a\<close>, \<open>b\<close> and \<open>c\<close> have connected, its store empty.\<close>

definition three_sessions :: "mem_db server_state" where
  "three_sessions =
     fst (server_run mem_create
            [Connection 10 ''a'', Connection 20 ''b'', Connection 30 ''c'']
            (server_init \<lparr>rows = [], next_id = 1, clock = 100\<rparr>))"

text \<open>The payload \<open>{username: "Ann", text: "hi"}\<close>.\<close>

definition ann_hi :: jsval where
  "ann_hi = JObj [(''username'', JStr ''Ann''), (''text'', JStr ''hi'')]"

text \<open>A store whose create throws an error that has no message.\<close>

definition silent_create :: "mem_db create_fn" where
  "silent_create d username text = (Inl [], d)"

text \<open>
  Connection ids are made by the channel library and are new at each connection:
  \<open>fresh_ids cur es\<close> says so of the events \<open>es\<close>, from the connected sockets \<open>cur\<close>.
\<close>

fun fresh_ids :: "socket_id list \<Rightarrow> server_event list \<Rightarrow> bool" where
  "fresh_ids cur [] = True"
| "fresh_ids cur (Connection now sid # es) = (sid \<notin> set cur \<and> fresh_ids (cur @ [sid]) es)"
| "fresh_ids cur (Disconnect sid # es) = fresh_ids (removeAll sid cur) es"
| "fresh_ids cur (ClientEvent sid ev data hasAck # es) = fresh_ids cur es"

text \<open>A burst of input: the times of the \<open>input\<close> events and the text each leaves in the field.\<close>

definition inputs :: "(nat \<times> string) list \<Rightarrow> (nat \<times> client_event) list" where
  "inputs burst = map (\<lambda>(t, v). (t, MessageInput v)) burst"

text \<open>The \<open>tempId\<close> that \<open>sendMessage\<close> makes from the counter \<open>n\<close>.\<close>

definition tempId_of :: "nat \<Rightarrow> string" where
  "tempId_of n = ''temp-'' @ show_nat n"

text \<open>The \<open>tempId\<close> of the counter \<open>n\<close> was given out and is no longer pending.\<close>

definition settled :: "nat \<Rightarrow> client_state \<Rightarrow> bool" where
  "settled n st \<longleftrightarrow> n < tempIdCounter st \<and> pendingMessages st (tempId_of n) = None"

definition err_ack :: jsobj where
  "err_ack = [(''status'', JStr ''error''), (''message'', JStr ''connect ECONNREFUSED''),
              (''code'', JStr ''DATABASE_ERROR'')]"

definition ok_ack :: jsobj where
  "ok_ack = success_ack \<lparr>row_id = 1, row_username = ''Ann'', row_text = ''hi'',
                          row_createdAt = 250, row_updatedAt = 250\<rparr>"

text \<open>Ann types \<open>hi\<close> and sends it; then the server answers that the store failed.\<close>

definition sent_hi :: client_state where
  "sent_hi = fst (client_run [(0, MessageInput ''hi''), (100, SendClick)] (client_init ''Ann''))"

definition failed_send :: client_state where
  "failed_send = fst (client_step (200, AckReceived 0 err_ack) sent_hi)"

definition failed_entry :: li_elem where
  "failed_entry =
     \<lparr>content_sender = JStr ''Ann'', content_text = JStr ''hi'',
      classList = [''error''], meta_time = JDate 100,
      status = Some (Failed (JStr ''connect ECONNREFUSED'')),
      retry = Some \<lparr>disabled = False, label = ''Retry'', bound_username = ''Ann'', bound_text = ''hi''\<rparr>,
      messageId = JStr ''temp-1''\<rparr>"

definition bob_broadcast :: jsobj where
  "bob_broadcast = broadcastData_of \<lparr>row_id = 7, row_username = ''Bob'', row_text = ''hello'',
                                      row_createdAt = 5, row_updatedAt = 5\<rparr>"

text \<open>
  The record the in-memory store of \<open>three_sessions\<close> makes of Ann's \<open>hi\<close>, and the
  message the server sends back to the sender after acknowledging it: the broadcast
  payload marked as the sender's own.
\<close>

definition ann_row :: message_row where
  "ann_row = \<lparr>row_id = 1, row_username = ''Ann'', row_text = ''hi'',
               row_createdAt = 100, row_updatedAt = 100\<rparr>"


text \<open>
  The \<open>tempId\<close> of the counter \<open>n\<close> was given out, and the pending map holds for it the
  entry \<open>p\<close> or, once acknowledged, nothing.
\<close>

definition kept :: "nat \<Rightarrow> pending \<Rightarrow> client_state \<Rightarrow> bool" where
  "kept n p st \<longleftrightarrow>
     n < tempIdCounter st \<and>
     (pendingMessages st (tempId_of n) = None \<or> pendingMessages st (tempId_of n) = Some p)"

text \<open>The sender a send uses: the name set, else the content of the name field, else \<open>Anonymous\<close>.\<close>

definition sender_name :: "client_state \<Rightarrow> string" where
  "sender_name st = trim (if myName st \<noteq> [] then myName st
                          else if usernameInput st \<noteq> [] then usernameInput st
                          else ''Anonymous'')"

section \<open>Server: basic facts\<close>

lemma js_or_idem: "js_or (js_or a b) b = js_or a b"
  by (simp add: js_or_def)

lemma trim_hi: "trim ''hi'' = ''hi''"
  by (simp add: trim_def is_js_space_def)

lemma trim_Ann: "trim ''Ann'' = ''Ann''"
  by (simp add: trim_def is_js_space_def)

lemma trim_blank: "trim ''   '' = []"
  by (simp add: trim_def is_js_space_def)

lemma recipients_map_Emit: "recipients (map (\<lambda>t. Emit t ev data) ts) = ts"
  by (induction ts) simp_all

lemma acks_of_append: "acks_of (xs @ ys) = acks_of xs @ acks_of ys"
  by (induction xs rule: acks_of.induct) simp_all

lemma acks_of_map_Emit: "acks_of (map (\<lambda>t. Emit t ev data) ts) = []"
  by (induction ts) simp_all

lemma acks_of_broadcastExcept: "acks_of (broadcastExcept st sid ev data) = []"
  by (simp add: broadcastExcept_def socket_broadcast_emit_def acks_of_map_Emit split: option.splits)

lemma acks_of_broadcast: "acks_of (broadcast st ev data) = []"
  by (simp add: broadcast_def io_emit_def acks_of_map_Emit)

lemma acks_of_sendToClient: "acks_of (snd (sendToClient st sid ev data)) = []"
  by (simp add: sendToClient_def split: option.splits)

subsection \<open>The three outcomes of \<open>sendMessage\<close>\<close>

lemma sendMessage_invalid:
  assumes "text = JUndefined \<or> text = JNull \<or> (\<exists>s. text = JStr s \<and> trim s = [])"
    and "get_member messageData ''text'' = Inr text"
  shows "sendMessage create st messageData senderSocketId =
           Inr (Failure ''Message cannot be empty'' ''VALIDATION_ERROR'', st, [])"
  using assms by (auto simp: sendMessage_def)

lemma sendMessage_db_fail:
  assumes "obj_get kvs ''text'' = JStr s" and "trim s \<noteq> []"
    and "create (db st) (js_or (obj_get kvs ''username'') (JStr ''Anonymous'')) (JStr (trim s)) = (Inl err, d')"
  shows "sendMessage create st (JObj kvs) senderSocketId =
           Inr (Failure (if err \<noteq> [] then err else ''Failed to save message'') ''DATABASE_ERROR'',
                st\<lparr>db := d'\<rparr>, [])"
proof -
  have "s \<noteq> []" using assms(2) by (auto simp: trim_def)
  then show ?thesis using assms
    by (simp add: sendMessage_def saveMessage_def js_or_idem)
qed

lemma sendMessage_db_ok:
  assumes "obj_get kvs ''text'' = JStr s" and "trim s \<noteq> []"
    and "create (db st) (js_or (obj_get kvs ''username'') (JStr ''Anonymous'')) (JStr (trim s)) = (Inr saved, d')"
  shows "sendMessage create st (JObj kvs) (Some sid) =
           Inr (Success saved (broadcastData_of saved), st\<lparr>db := d'\<rparr>,
                if sid \<noteq> [] then broadcastExcept (st\<lparr>db := d'\<rparr>) sid ''chat message'' (broadcastData_of saved)
                else broadcast (st\<lparr>db := d'\<rparr>) ''chat message'' (broadcastData_of saved))"
proof -
  have "s \<noteq> []" using assms(2) by (auto simp: trim_def)
  then show ?thesis using assms
    by (simp add: sendMessage_def saveMessage_def js_or_idem Let_def)
qed

lemma on_chat_message_db_ok:
  assumes "obj_get kvs ''text'' = JStr s" and "trim s \<noteq> []"
    and "create (db st) (js_or (obj_get kvs ''username'') (JStr ''Anonymous'')) (JStr (trim s)) = (Inr saved, d')"
  shows "fst (on_chat_message create sid (JObj kvs) hasAck st) = st\<lparr>db := d'\<rparr>"
    and "acks_of (snd (on_chat_message create sid (JObj kvs) hasAck st)) =
           (if hasAck then [(sid, success_ack saved)] else [])"
  using sendMessage_db_ok[of kvs s create st saved d' sid] assms
  by (simp_all add: on_chat_message_def acks_of_append
        acks_of_broadcastExcept acks_of_broadcast acks_of_sendToClient success_ack_def)

subsection \<open>The registry agrees with the connected sockets\<close>

lemma registry_inv_socket:
  assumes "registry_inv st" and "map_of (clients st) k = Some c"
  shows "socket c = k"
proof -
  have "(k, c) \<in> set (clients st)" using assms(2) by (rule map_of_SomeD)
  moreover have "\<forall>(k, c) \<in> set (clients st). socket c = k"
    using assms(1) by (simp add: registry_inv_def list_all_iff)
  ultimately show ?thesis by auto
qed

lemma registered_iff:
  "map_of (clients st) k \<noteq> None \<longleftrightarrow> k \<in> set (getConnectedClients st)"
  by (simp add: getConnectedClients_def map_of_eq_None_iff)

lemma registry_inv_init: "registry_inv (server_init d)"
  by (simp add: registry_inv_def server_init_def)

lemma map_fst_update_new:
  "k \<notin> fst ` set al \<Longrightarrow> map fst (AList.update k v al) = map fst al @ [k]"
  by (induction al) auto

lemma map_fst_delete: "map fst (AList.delete k al) = removeAll k (map fst al)"
  by (induction al) auto

lemma list_all_update:
  "list_all P al \<Longrightarrow> P (k, v) \<Longrightarrow> list_all P (AList.update k v al)"
  by (induction al) auto

lemma list_all_delete: "list_all P al \<Longrightarrow> list_all P (AList.delete k al)"
  by (induction al) auto

lemma registry_inv_connection:
  assumes "registry_inv st" and "sid \<notin> set (io_sockets st)"
  shows "registry_inv (fst (server_step create (Connection now sid) st))"
proof -
  have "sid \<notin> fst ` set (clients st)"
    using assms by (metis registry_inv_def set_map)
  then show ?thesis using assms
    by (simp add: registry_inv_def handleConnection_def map_fst_update_new list_all_update)
qed

lemma registry_inv_disconnect:
  assumes "registry_inv st"
  shows "registry_inv (fst (server_step create (Disconnect sid) st))"
  using assms
  by (auto simp: registry_inv_def handleDisconnection_def map_fst_delete list_all_delete
        distinct_removeAll map_of_eq_None_iff
      simp flip: set_map)

lemma sendMessage_registry:
  assumes "sendMessage create st data sid = Inr (r, st', sent)"
  shows "clients st' = clients st \<and> io_sockets st' = io_sockets st"
  using assms
  by (auto simp: sendMessage_def Let_def split: sum.splits if_splits prod.splits db_result.splits)

lemma client_event_registry:
  "clients (fst (server_step create (ClientEvent sid ev data hasAck) st)) = clients st
   \<and> io_sockets (fst (server_step create (ClientEvent sid ev data hasAck) st)) = io_sockets st"
proof (cases "sendMessage create st data (Some sid)")
  case (Inl e)
  then show ?thesis by (simp add: on_chat_message_def)
next
  case (Inr t)
  obtain r st' sent where t: "t = (r, st', sent)" by (cases t) auto
  have "clients st' = clients st \<and> io_sockets st' = io_sockets st"
    using sendMessage_registry Inr t by blast
  then show ?thesis using Inr t
    by (cases r) (simp_all add: on_chat_message_def)
qed

lemma registry_inv_client_event:
  assumes "registry_inv st"
  shows "registry_inv (fst (server_step create (ClientEvent sid ev data hasAck) st))"
  using assms client_event_registry[of create sid ev data hasAck st]
  by (simp add: registry_inv_def)

lemma server_run_Cons:
  "server_run create (e # es) st =
     (fst (server_run create es (fst (server_step create e st))),
      snd (server_step create e st) @ snd (server_run create es (fst (server_step create e st))))"
  by (simp add: Let_def split: prod.splits)

lemma registry_inv_run:
  "registry_inv st \<Longrightarrow> fresh_ids (io_sockets st) es \<Longrightarrow> registry_inv (fst (server_run create es st))"
proof (induction es arbitrary: st)
  case Nil
  then show ?case by simp
next
  case (Cons e es)
  have "registry_inv (fst (server_step create e st))
        \<and> fresh_ids (io_sockets (fst (server_step create e st))) es"
  proof (cases e)
    case (Connection now sid)
    then show ?thesis
      using Cons.prems registry_inv_connection[of st sid create now]
      by (simp add: handleConnection_def)
  next
    case (ClientEvent sid ev data hasAck)
    then show ?thesis
      using Cons.prems registry_inv_client_event[of st create sid ev data hasAck]
            client_event_registry[of create sid ev data hasAck st]
      by simp
  next
    case (Disconnect sid)
    then show ?thesis
      using Cons.prems registry_inv_disconnect[of st create sid]
      by (simp add: handleDisconnection_def)
  qed
  then have "registry_inv (fst (server_run create es (fst (server_step create e st))))"
    using Cons.IH by blast
  then show ?case by (simp add: server_run_Cons del: server_run.simps)
qed

lemma broadcastExcept_eq:
  assumes "registry_inv st"
  shows "broadcastExcept st originId ev data =
           (if originId \<in> set (getConnectedClients st)
            then map (\<lambda>t. Emit t ev data) (filter (\<lambda>t. t \<noteq> originId) (getConnectedClients st))
            else [])"
proof (cases "map_of (clients st) originId")
  case None
  then show ?thesis using registered_iff[of st originId]
    by (simp add: broadcastExcept_def)
next
  case (Some c)
  then have "socket c = originId" using assms registry_inv_socket by blast
  moreover have "io_sockets st = getConnectedClients st"
    using assms by (simp add: registry_inv_def getConnectedClients_def)
  moreover have "originId \<in> set (getConnectedClients st)"
    using Some registered_iff[of st originId] by simp
  ultimately show ?thesis using Some
    by (simp add: broadcastExcept_def socket_broadcast_emit_def)
qed

subsection \<open>Three connected sessions\<close>

lemma three_sessions_eq:
  "three_sessions =
     \<lparr>clients = [(''a'', \<lparr>socket = ''a'', connectedAt = 10\<rparr>),
                 (''b'', \<lparr>socket = ''b'', connectedAt = 20\<rparr>),
                 (''c'', \<lparr>socket = ''c'', connectedAt = 30\<rparr>)],
      io_sockets = [''a'', ''b'', ''c''],
      db = \<lparr>rows = [], next_id = 1, clock = 100\<rparr>\<rparr>"
  by (simp add: three_sessions_def server_init_def handleConnection_def)

lemma three_sessions_inv: "registry_inv three_sessions"
  unfolding three_sessions_def
proof (rule registry_inv_run)
  show "registry_inv (server_init \<lparr>rows = [], next_id = 1, clock = 100\<rparr>)"
    by (rule registry_inv_init)
  show "fresh_ids (io_sockets (server_init \<lparr>rows = [], next_id = 1, clock = 100\<rparr>))
          [Connection 10 ''a'', Connection 20 ''b'', Connection 30 ''c'']"
    by (simp add: server_init_def)
qed

section \<open>Server: the delivery service\<close>

text \<open>
  C1, as amended. For every inbound \<open>chat message\<close> whose text is a string that is not
  empty after trimming, and for which the store's create succeeds, the handler leaves the
  store as that one create call left it (called with the sender, or \<open>Anonymous\<close>, and the
  trimmed text), and the one acknowledgement given to the sender reports success with
  \<open>messageId\<close> equal to the id of the record the store returned.
\<close>

theorem send_persists_once_and_acknowledges:
  assumes "obj_get kvs ''text'' = JStr s" and "trim s \<noteq> []"
    and "create (db st) (js_or (obj_get kvs ''username'') (JStr ''Anonymous'')) (JStr (trim s)) = (Inr saved, d')"
  shows "db (fst (on_chat_message create sid (JObj kvs) True st)) = d'
       \<and> (\<exists>ack. acks_of (snd (on_chat_message create sid (JObj kvs) True st)) = [(sid, ack)]
              \<and> obj_get ack ''status'' = JStr ''success''
              \<and> obj_get ack ''messageId'' = JNum (int (row_id saved)))"
  using on_chat_message_db_ok[of kvs s create st saved d' sid True] assms
  by (simp add: success_ack_def obj_get_def)

theorem send_persists_once_and_acknowledges_witness:
  "rows (db (fst (on_chat_message mem_create ''a'' ann_hi True three_sessions))) =
     [\<lparr>row_id = 1, row_username = ''Ann'', row_text = ''hi'', row_createdAt = 100, row_updatedAt = 100\<rparr>]
   \<and> (\<exists>ack. acks_of (snd (on_chat_message mem_create ''a'' ann_hi True three_sessions)) = [(''a'', ack)]
          \<and> obj_get ack ''status'' = JStr ''success''
          \<and> obj_get ack ''messageId'' = JNum 1)"
proof -
  let ?r = "\<lparr>row_id = 1, row_username = ''Ann'', row_text = ''hi'', row_createdAt = 100, row_updatedAt = 100\<rparr>"
  let ?kvs = "[(''username'', JStr ''Ann''), (''text'', JStr ''hi'')]"
  have a: "obj_get ?kvs ''text'' = JStr ''hi''" by (simp add: obj_get_def)
  have b: "trim ''hi'' \<noteq> []" by (simp add: trim_hi)
  have c: "mem_create (db three_sessions) (js_or (obj_get ?kvs ''username'') (JStr ''Anonymous'')) (JStr (trim ''hi''))
             = (Inr ?r, \<lparr>rows = [?r], next_id = 2, clock = 100\<rparr>)"
    by (simp add: three_sessions_eq mem_create_def obj_get_def js_or_def trim_hi Let_def)
  show ?thesis
    using send_persists_once_and_acknowledges[of ?kvs "''hi''" mem_create three_sessions ?r
            "\<lparr>rows = [?r], next_id = 2, clock = 100\<rparr>" "''a''"] a b c
    by (simp add: ann_hi_def)
qed

text \<open>
  C1 as stated fails when the store cannot be reached: the text \<open>hi\<close> is not empty after
  trimming, yet nothing is stored and the acknowledgement reports an error.
\<close>

theorem send_store_down_counterexample:
  "trim ''hi'' \<noteq> []
   \<and> on_chat_message down_create ''a'' ann_hi True three_sessions =
       (three_sessions,
        [Ack ''a'' [(''status'', JStr ''error''),
                    (''message'', JStr ''connect ECONNREFUSED''),
                    (''code'', JStr ''DATABASE_ERROR'')]])
   \<and> rows (db three_sessions) = []"
  by (simp add: trim_hi on_chat_message_def sendMessage_def saveMessage_def down_create_def
        ann_hi_def obj_get_def js_or_def three_sessions_eq)

text \<open>
  C2. For every inbound message whose text is absent (\<open>undefined\<close> or \<open>null\<close>) or a
  string that trims to the empty string, \<open>sendMessage\<close> returns the failure with the code
  \<open>VALIDATION_ERROR\<close>, which is not the code of a store failure; the state, the store with
  it, is the one before the call whatever the store's create would do, and nothing is
  sent to any session. The handler then sends the acknowledgement and nothing else.
\<close>

theorem validation_failure_no_side_effects:
  assumes "text = JUndefined \<or> text = JNull \<or> (\<exists>s. text = JStr s \<and> trim s = [])"
    and "get_member messageData ''text'' = Inr text"
  shows "sendMessage create st messageData senderSocketId =
           Inr (Failure ''Message cannot be empty'' ''VALIDATION_ERROR'', st, [])
         \<and> ''VALIDATION_ERROR'' \<noteq> ''DATABASE_ERROR''
         \<and> on_chat_message create sid messageData hasAck st =
             (st, if hasAck
                  then [Ack sid [(''status'', JStr ''error''),
                                 (''message'', JStr ''Message cannot be empty''),
                                 (''code'', JStr ''VALIDATION_ERROR'')]]
                  else [])"
  by (simp add: on_chat_message_def sendMessage_invalid[OF assms])

theorem validation_failure_no_side_effects_witness:
  "sendMessage mem_create three_sessions (JObj [(''username'', JStr ''Bob''), (''text'', JStr ''   '')]) (Some ''b'') =
     Inr (Failure ''Message cannot be empty'' ''VALIDATION_ERROR'', three_sessions, [])
   \<and> on_chat_message mem_create ''b'' (JObj [(''username'', JStr ''Bob'')]) True three_sessions =
       (three_sessions,
        [Ack ''b'' [(''status'', JStr ''error''),
                    (''message'', JStr ''Message cannot be empty''),
                    (''code'', JStr ''VALIDATION_ERROR'')]])"
proof -
  let ?k1 = "[(''username'', JStr ''Bob''), (''text'', JStr ''   '')]"
  let ?k2 = "[(''username'', JStr ''Bob'')]"
  have a1: "JStr ''   '' = JUndefined \<or> JStr ''   '' = JNull \<or> (\<exists>s. JStr ''   '' = JStr s \<and> trim s = [])"
    by (simp add: trim_blank)
  have b1: "get_member (JObj ?k1) ''text'' = Inr (JStr ''   '')" by (simp add: obj_get_def)
  have a2: "JUndefined = JUndefined \<or> JUndefined = JNull \<or> (\<exists>s. JUndefined = JStr s \<and> trim s = [])"
    by simp
  have b2: "get_member (JObj ?k2) ''text'' = Inr JUndefined" by (simp add: obj_get_def)
  show ?thesis
    using validation_failure_no_side_effects[OF a1 b1, of mem_create three_sessions "Some ''b''" "''b''" True]
          validation_failure_no_side_effects[OF a2 b2, of mem_create three_sessions "Some ''b''" "''b''" True]
    by simp
qed

text \<open>
  C3, as amended. Whenever the store's create fails, \<open>sendMessage\<close> returns a failure with
  the code \<open>DATABASE_ERROR\<close>, which is not the validation code, and nothing is sent to any
  session; the failure carries the store's error text when the store gave one, and the
  fixed text \<open>Failed to save message\<close> when the store's error text is empty.
\<close>

theorem persistence_failure_reported:
  assumes "obj_get kvs ''text'' = JStr s" and "trim s \<noteq> []"
    and "create (db st) (js_or (obj_get kvs ''username'') (JStr ''Anonymous'')) (JStr (trim s)) = (Inl err, d')"
  shows "sendMessage create st (JObj kvs) senderSocketId =
           Inr (Failure (if err \<noteq> [] then err else ''Failed to save message'') ''DATABASE_ERROR'',
                st\<lparr>db := d'\<rparr>, [])
       \<and> ''DATABASE_ERROR'' \<noteq> ''VALIDATION_ERROR''
       \<and> on_chat_message create sid (JObj kvs) hasAck st =
           (st\<lparr>db := d'\<rparr>,
            if hasAck
            then [Ack sid [(''status'', JStr ''error''),
                           (''message'', JStr (if err \<noteq> [] then err else ''Failed to save message'')),
                           (''code'', JStr ''DATABASE_ERROR'')]]
            else [])"
  using sendMessage_db_fail[of kvs s create st err d'] assms
  by (simp add: on_chat_message_def)

theorem persistence_failure_reported_witness:
  "sendMessage down_create three_sessions ann_hi (Some ''a'') =
     Inr (Failure ''connect ECONNREFUSED'' ''DATABASE_ERROR'', three_sessions, [])
   \<and> recipients (snd (on_chat_message down_create ''a'' ann_hi False three_sessions)) = []"
proof -
  let ?kvs = "[(''username'', JStr ''Ann''), (''text'', JStr ''hi'')]"
  have a: "obj_get ?kvs ''text'' = JStr ''hi''" by (simp add: obj_get_def)
  have b: "trim ''hi'' \<noteq> []" by (simp add: trim_hi)
  have c: "down_create (db three_sessions) (js_or (obj_get ?kvs ''username'') (JStr ''Anonymous'')) (JStr (trim ''hi''))
             = (Inl ''connect ECONNREFUSED'', db three_sessions)"
    by (simp add: down_create_def)
  show ?thesis
    using persistence_failure_reported[of ?kvs "''hi''" down_create three_sessions
            "''connect ECONNREFUSED''" "db three_sessions" "Some ''a''" "''a''" False] a b c
    by (simp add: ann_hi_def)
qed

text \<open>
  C3 as stated fails when the error the store throws has an empty message: the failure
  returned carries the fixed text, which is not the store's.
\<close>

theorem persistence_failure_empty_text_counterexample:
  "silent_create (db three_sessions) (JStr ''Ann'') (JStr ''hi'') = (Inl [], db three_sessions)
   \<and> sendMessage silent_create three_sessions ann_hi (Some ''a'') =
       Inr (Failure ''Failed to save message'' ''DATABASE_ERROR'', three_sessions, [])
   \<and> ''Failed to save message'' \<noteq> []"
  by (simp add: silent_create_def sendMessage_def saveMessage_def ann_hi_def obj_get_def js_or_def
        trim_hi)

section \<open>Server: the session registry\<close>

text \<open>
  C4. In every state in which the registry holds the connected sockets,
  \<open>broadcastExcept\<close> with a registered origin delivers the event, with its payload, to
  every registered session but the origin, once each; with an origin that is not
  registered it delivers to nobody; and it delivers to nobody when the origin is the only
  registered session. Every state the server reaches from its start is such a state
  (\<open>registry_inv_init\<close>, \<open>registry_inv_run\<close>).
\<close>

theorem broadcastExcept_delivers_to_others:
  assumes "registry_inv st"
  shows "(originId \<in> set (getConnectedClients st) \<longrightarrow>
            broadcastExcept st originId ev data =
              map (\<lambda>t. Emit t ev data) (filter (\<lambda>t. t \<noteq> originId) (getConnectedClients st))
          \<and> set (recipients (broadcastExcept st originId ev data)) =
              set (getConnectedClients st) - {originId})
       \<and> (originId \<notin> set (getConnectedClients st) \<longrightarrow> broadcastExcept st originId ev data = [])
       \<and> (getConnectedClients st = [originId] \<longrightarrow> broadcastExcept st originId ev data = [])"
  by (auto simp: broadcastExcept_eq[OF assms] recipients_map_Emit)

theorem broadcastExcept_delivers_to_others_witness:
  "registry_inv three_sessions
   \<and> broadcastExcept three_sessions ''b'' ''chat message'' [] =
       [Emit ''a'' ''chat message'' [], Emit ''c'' ''chat message'' []]
   \<and> broadcastExcept three_sessions ''z'' ''chat message'' [] = []"
proof -
  have gc: "getConnectedClients three_sessions = [''a'', ''b'', ''c'']"
    by (simp add: three_sessions_eq getConnectedClients_def)
  have "broadcastExcept three_sessions ''b'' ''chat message'' [] =
          [Emit ''a'' ''chat message'' [], Emit ''c'' ''chat message'' []]"
    using broadcastExcept_delivers_to_others[OF three_sessions_inv, of "''b''" "''chat message''" "[]"]
    by (simp add: gc)
  moreover have "broadcastExcept three_sessions ''z'' ''chat message'' [] = []"
    using broadcastExcept_delivers_to_others[OF three_sessions_inv, of "''z''" "''chat message''" "[]"]
    by (simp add: gc)
  ultimately show ?thesis using three_sessions_inv by blast
qed

section \<open>Server: the acknowledgement and the typing relay\<close>

text \<open>
  C5. A send that succeeds and came with a callback is acknowledged with \<open>status\<close>,
  \<open>messageId\<close>, \<open>sender\<close>, \<open>text\<close>, \<open>timestamp\<close> and \<open>code\<close>: the acknowledgement has
  no \<open>serverTime\<close>, which the client reads from it. Here Ann sends \<open>hi\<close> from the
  session \<open>a\<close>.
\<close>

theorem success_ack_lacks_serverTime:
  "acks_of (snd (on_chat_message mem_create ''a'' ann_hi True three_sessions)) =
     [(''a'', [(''status'', JStr ''success''),
               (''messageId'', JNum 1),
               (''sender'', JStr ''Ann''),
               (''text'', JStr ''hi''),
               (''timestamp'', JDate 100),
               (''code'', JStr ''MESSAGE_SENT'')])]
   \<and> obj_get (snd (hd (acks_of (snd (on_chat_message mem_create ''a'' ann_hi True three_sessions)))))
        ''serverTime'' = JUndefined"
  by (simp add: on_chat_message_def sendMessage_def saveMessage_def mem_create_def
        ann_hi_def obj_get_def js_or_def three_sessions_eq trim_hi Let_def
        broadcastExcept_def socket_broadcast_emit_def sendToClient_def broadcastData_of_def)

text \<open>
  What a failed send is acknowledged with when the handler itself fails, here on a
  payload that is \<open>null\<close>: a status and a message, and no code.
\<close>

lemma internal_error_ack_has_no_code:
  "on_chat_message create sid JNull True st =
     (st, [Ack sid [(''status'', JStr ''error''), (''message'', JStr ''Internal server error'')]])"
  by (simp add: on_chat_message_def sendMessage_def)

text \<open>
  C6. The server has no listener for \<open>typing\<close> or \<open>stop_typing\<close>: with three sessions
  connected, either event from the session \<open>a\<close> changes nothing and reaches nobody, so no
  \<open>user_typing\<close> is relayed.
\<close>

theorem typing_events_not_relayed:
  "server_step mem_create (ClientEvent ''a'' ''typing'' (JObj [(''username'', JStr ''Ann'')]) False) three_sessions
     = (three_sessions, [])
   \<and> server_step mem_create (ClientEvent ''a'' ''stop_typing'' (JObj [(''username'', JStr ''Ann'')]) False) three_sessions
     = (three_sessions, [])"
  by simp

lemma only_chat_message_is_handled:
  "ev \<noteq> ''chat message'' \<Longrightarrow> server_step create (ClientEvent sid ev data hasAck) st = (st, [])"
  by simp

section \<open>Client: basic facts\<close>

lemma typing_signals_append: "typing_signals (xs @ ys) = typing_signals xs @ typing_signals ys"
  by (induction xs rule: typing_signals.induct) simp_all

lemma client_run_Cons:
  "client_run (e # es) st =
     (fst (client_run es (fst (client_step e st))),
      snd (client_step e st) @ snd (client_run es (fst (client_step e st))))"
  by (simp add: Let_def split: prod.splits)

lemma upd_elem_fields [simp]:
  "messagesEl (upd_elem l f st) = messagesEl st"
  "tempIdCounter (upd_elem l f st) = tempIdCounter st"
  "pendingMessages (upd_elem l f st) = pendingMessages st"
  "next_elem (upd_elem l f st) = next_elem st"
  "acks (upd_elem l f st) = acks st"
  "next_ack (upd_elem l f st) = next_ack st"
  "myName (upd_elem l f st) = myName st"
  by (simp_all add: upd_elem_def split: option.splits)

lemma upd_elem_elems:
  "elems (upd_elem l f st) l' = (if l' = l then map_option f (elems st l) else elems st l')"
  by (simp add: upd_elem_def split: option.splits)

lemma updateMessageElement_status_only:
  "updateMessageElement (no_updates\<lparr>u_status := Some s\<rparr>) li = li\<lparr>status := Some s\<rparr>"
  by (simp add: updateMessageElement_def no_updates_def given_def)

lemma classList_keeps [simp]:
  "retry (classList_add c li) = retry li"
  "retry (classList_remove c li) = retry li"
  "status (classList_add c li) = status li"
  "status (classList_remove c li) = status li"
  by (simp_all add: classList_add_def classList_remove_def)

lemma classList_me:
  "''me'' \<in> set (classList (classList_add ''me'' li))"
  "''pending'' \<notin> set (classList (classList_add ''me'' (classList_remove ''pending'' li)))"
  by (simp_all add: classList_add_def classList_remove_def)

lemma show_nat_1: "show_nat (Suc 0) = ''1''"
  by code_simp

subsection \<open>The \<open>tempId\<close>s are all different\<close>

lemma show_nat_nonempty: "show_nat n \<noteq> []"
  by (subst show_nat.simps) simp

lemma digit_inj:
  assumes "a < 10" and "b < 10" and "char_of (48 + a) = (char_of (48 + b) :: char)"
  shows "a = (b::nat)"
proof -
  have "of_char (char_of (48 + a) :: char) = (of_char (char_of (48 + b) :: char) :: nat)"
    using assms(3) by simp
  then have "(48 + a) mod 256 = (48 + b) mod 256" by simp
  then show ?thesis using assms(1,2) by simp
qed

lemma show_nat_inj: "show_nat n = show_nat m \<Longrightarrow> n = m"
proof (induction n arbitrary: m rule: show_nat.induct)
  case (1 n)
  show ?case
  proof (cases "n < 10")
    case True
    note n = this
    show ?thesis
    proof (cases "m < 10")
      case True
      then show ?thesis using n "1.prems" digit_inj[of n m]
        by (simp add: show_nat.simps[of n] show_nat.simps[of m])
    next
      case False
      then show ?thesis using n "1.prems" show_nat_nonempty[of "m div 10"]
        by (simp add: show_nat.simps[of n] show_nat.simps[of m])
    qed
  next
    case False
    note n = this
    show ?thesis
    proof (cases "m < 10")
      case True
      then show ?thesis using n "1.prems" show_nat_nonempty[of "n div 10"]
        by (simp add: show_nat.simps[of n] show_nat.simps[of m])
    next
      case False
      have eq: "show_nat (n div 10) @ [char_of (48 + n mod 10)] = show_nat (m div 10) @ [char_of (48 + m mod 10)]"
        using n False "1.prems" by (simp add: show_nat.simps[of n] show_nat.simps[of m])
      then have a: "show_nat (n div 10) = show_nat (m div 10)"
        and b: "char_of (48 + n mod 10) = (char_of (48 + m mod 10) :: char)"
        by simp_all
      have "n div 10 = m div 10" using "1.IH"[OF n a] .
      moreover have "n mod 10 = m mod 10" using digit_inj[OF _ _ b] by simp
      ultimately show ?thesis by (metis div_mult_mod_eq)
    qed
  qed
qed

lemma tempId_of_inj: "tempId_of n = tempId_of m \<Longrightarrow> n = m"
  by (simp add: tempId_of_def show_nat_inj)

subsection \<open>A \<open>tempId\<close> that is settled stays settled\<close>

lemma handleAcknowledgement_pending:
  "pendingMessages (fst (handleAcknowledgement tempId a st)) = (pendingMessages st)(tempId := None)"
  by (auto simp: handleAcknowledgement_def Let_def split: option.splits)

lemma handleAcknowledgement_counter:
  "tempIdCounter (fst (handleAcknowledgement tempId a st)) = tempIdCounter st"
  by (simp add: handleAcknowledgement_def Let_def split: option.splits)

lemma settled_step:
  assumes "settled n st"
  shows "settled n (fst (client_step e st))"
proof -
  obtain now ev where e: "e = (now, ev)" by (cases e)
  have neq: "tempId_of (tempIdCounter st) \<noteq> tempId_of n"
    using assms tempId_of_inj[of "tempIdCounter st" n] by (auto simp: settled_def)
  show ?thesis
  proof (cases ev)
    case (UsernameTyped v)
    then show ?thesis using assms e by (simp add: settled_def)
  next
    case SetUsernameClick
    then show ?thesis using assms e by (simp add: settled_def setUsername_def Let_def)
  next
    case (MessageInput v)
    then show ?thesis using assms e by (simp add: settled_def handleTyping_def Let_def)
  next
    case SendClick
    then show ?thesis using assms e neq
      by (simp add: settled_def client_sendMessage_def Let_def tempId_of_def)
  next
    case (KeyPress key)
    then show ?thesis using assms e neq
      by (simp add: settled_def handleKeyPress_def client_sendMessage_def Let_def tempId_of_def)
  next
    case TypingTimer
    then show ?thesis using assms e
      by (simp add: settled_def typing_timer_fires_def typing_timer_callback_def split: option.splits)
  next
    case (AckReceived k a)
    then show ?thesis using assms e
      by (simp add: settled_def ack_received_def retry_ack_def handleAcknowledgement_pending
            handleAcknowledgement_counter split: option.splits ack_closure.splits)
  next
    case (RetryClick l)
    then show ?thesis using assms e
      by (simp add: settled_def retry_click_def Let_def split: option.splits)
  next
    case (ChatMessage msg)
    then show ?thesis using assms e by (simp add: settled_def handleIncomingMessage_def Let_def)
  next
    case (UserTyping data)
    then show ?thesis using assms e
      by (simp add: settled_def on_user_typing_def showTypingIndicator_def split: option.splits)
  qed
qed

lemma settled_run:
  "settled n st \<Longrightarrow> settled n (fst (client_run es st))"
proof (induction es arbitrary: st)
  case Nil
  then show ?case by simp
next
  case (Cons e es)
  have "settled n (fst (client_step e st))" using Cons.prems by (rule settled_step)
  then have "settled n (fst (client_run es (fst (client_step e st))))" by (rule Cons.IH)
  then show ?case by (simp add: client_run_Cons del: client_run.simps)
qed

subsection \<open>Ann's message, sent and failed\<close>

lemma sent_hi_eq:
  "sent_hi =
     \<lparr>myName = ''Ann'', usernameInput = ''Ann'', msgInput = [],
      pendingMessages = [''temp-1'' \<mapsto> \<lparr>p_li = 0, p_username = ''Ann'', p_text = ''hi''\<rparr>],
      tempIdCounter = 2, isTyping = False, typingTimeout = None,
      elems = [0 \<mapsto> createMessageElement ''Ann'' (JStr ''temp-1'') (JStr ''Ann'') (JStr ''hi'') (JDate 100) True Sending],
      next_elem = 1, messagesEl = [0], acks = [0 \<mapsto> SendAck ''temp-1''], next_ack = 1,
      typing_indicator = None\<rparr>"
  by (simp add: sent_hi_def client_init_def handleTyping_def client_sendMessage_def trim_hi trim_Ann
        Let_def show_nat_1)

lemma failed_send_eq:
  "failed_send =
     \<lparr>myName = ''Ann'', usernameInput = ''Ann'', msgInput = [],
      pendingMessages = Map.empty,
      tempIdCounter = 2, isTyping = False, typingTimeout = None,
      elems = [0 \<mapsto> failed_entry],
      next_elem = 1, messagesEl = [0], acks = Map.empty, next_ack = 1,
      typing_indicator = None\<rparr>"
  unfolding failed_send_def sent_hi_eq
  by (simp add: ack_received_def handleAcknowledgement_def err_ack_def obj_get_def js_or_def
        upd_elem_def createMessageElement_def updateMessageElement_def no_updates_def given_def
        classList_add_def classList_remove_def addRetryButton_def failed_entry_def Let_def)

section \<open>Client: typing presence\<close>

lemma handleTyping_named:
  assumes "myName st \<noteq> []"
  shows "handleTyping now st =
           (st\<lparr>isTyping := True, typingTimeout := Some (now + 1000)\<rparr>,
            if isTyping st then [] else [SocketEmit ''typing'' [(''username'', JStr (myName st))] None])"
  using assms by (simp add: handleTyping_def)

lemma burst_run:
  assumes "myName st \<noteq> []" and "burst \<noteq> []"
  shows "typing_signals (snd (client_run (inputs burst) st)) = (if isTyping st then [] else [True])
       \<and> fst (client_run (inputs burst) st) =
           st\<lparr>msgInput := snd (last burst), isTyping := True, typingTimeout := Some (fst (last burst) + 1000)\<rparr>"
  using assms
proof (induction burst arbitrary: st)
  case Nil
  then show ?case by simp
next
  case (Cons e es)
  obtain t v where e: "e = (t, v)" by (cases e)
  let ?st1 = "st\<lparr>msgInput := v, isTyping := True, typingTimeout := Some (t + 1000)\<rparr>"
  have step: "client_step (t, MessageInput v) st =
                (?st1, if isTyping st then [] else [SocketEmit ''typing'' [(''username'', JStr (myName st))] None])"
    using Cons.prems(1) by (simp add: handleTyping_named)
  show ?case
  proof (cases "es = []")
    case True
    then show ?thesis using step e by (simp add: inputs_def client_run_Cons del: client_run.simps(2))
  next
    case False
    have n1: "myName ?st1 \<noteq> []" using Cons.prems(1) by simp
    from Cons.IH[OF n1 False] step e False show ?thesis
      by (simp add: inputs_def typing_signals_append client_run_Cons del: client_run.simps)
  qed
qed

lemma handleTyping_unnamed:
  "myName st = [] \<Longrightarrow> handleTyping now st = (st, [])"
  by (simp add: handleTyping_def)

lemma unnamed_burst_run:
  assumes "myName st = []"
  shows "snd (client_run (inputs burst) st) = []
       \<and> isTyping (fst (client_run (inputs burst) st)) = isTyping st
       \<and> typingTimeout (fst (client_run (inputs burst) st)) = typingTimeout st
       \<and> myName (fst (client_run (inputs burst) st)) = []"
  using assms
proof (induction burst arbitrary: st)
  case Nil
  then show ?case by (simp add: inputs_def)
next
  case (Cons e es)
  obtain t v where e: "e = (t, v)" by (cases e)
  have step: "client_step (t, MessageInput v) st = (st\<lparr>msgInput := v\<rparr>, [])"
    using Cons.prems by (simp add: handleTyping_unnamed)
  have n1: "myName (st\<lparr>msgInput := v\<rparr>) = []" using Cons.prems by simp
  from Cons.IH[OF n1] step e show ?case
    by (simp add: inputs_def client_run_Cons del: client_run.simps)
qed

text \<open>
  C7, as amended. While the local name is set, in every unbroken burst of input the
  client emits the typing-start signal at most once (once if the typing flag was clear when
  the burst began, not at all if it was set), and no stop signal during the burst. After
  the burst the stop signal is emitted exactly once: by the timer, which cannot fire before
  1000ms have passed since the last input and, once it has fired, emits nothing again; or
  at once by a send of a non-empty message, which clears the flag and cancels the timer, so
  that the timer emits nothing afterwards. While no local name is set, input emits
  nothing, neither signal, and leaves the typing flag and the timer as they were.
\<close>

theorem typing_signals_per_burst:
  fixes st :: client_state and burst :: "(nat \<times> string) list"
  defines "st' \<equiv> fst (client_run (inputs burst) st)"
  shows "(myName st \<noteq> [] \<and> burst \<noteq> [] \<longrightarrow>
           typing_signals (snd (client_run (inputs burst) st)) = (if isTyping st then [] else [True])
         \<and> (\<forall>now later. fst (last burst) + 1000 \<le> now \<longrightarrow>
              typing_signals (snd (client_run [(now, TypingTimer), (later, TypingTimer)] st')) = [False]
              \<and> \<not> isTyping (fst (client_step (now, TypingTimer) st')))
         \<and> (\<forall>now. now < fst (last burst) + 1000 \<longrightarrow> client_step (now, TypingTimer) st' = (st', []))
         \<and> (\<forall>now later. trim (snd (last burst)) \<noteq> [] \<longrightarrow>
              typing_signals (snd (client_run [(now, SendClick), (later, TypingTimer)] st')) = [False]
              \<and> \<not> isTyping (fst (client_step (now, SendClick) st'))
              \<and> typingTimeout (fst (client_step (now, SendClick) st')) = None))
       \<and> (myName st = [] \<longrightarrow>
             snd (client_run (inputs burst) st) = []
           \<and> isTyping st' = isTyping st
           \<and> typingTimeout st' = typingTimeout st)"
proof -
  have named: "typing_signals (snd (client_run (inputs burst) st)) = (if isTyping st then [] else [True])
         \<and> (\<forall>now later. fst (last burst) + 1000 \<le> now \<longrightarrow>
              typing_signals (snd (client_run [(now, TypingTimer), (later, TypingTimer)] st')) = [False]
              \<and> \<not> isTyping (fst (client_step (now, TypingTimer) st')))
         \<and> (\<forall>now. now < fst (last burst) + 1000 \<longrightarrow> client_step (now, TypingTimer) st' = (st', []))
         \<and> (\<forall>now later. trim (snd (last burst)) \<noteq> [] \<longrightarrow>
              typing_signals (snd (client_run [(now, SendClick), (later, TypingTimer)] st')) = [False]
              \<and> \<not> isTyping (fst (client_step (now, SendClick) st'))
              \<and> typingTimeout (fst (client_step (now, SendClick) st')) = None)"
    if h: "myName st \<noteq> [] \<and> burst \<noteq> []"
  proof -
    have b: "typing_signals (snd (client_run (inputs burst) st)) = (if isTyping st then [] else [True])"
      and s: "st' = st\<lparr>msgInput := snd (last burst), isTyping := True,
                        typingTimeout := Some (fst (last burst) + 1000)\<rparr>"
      using burst_run[of st burst] h by (simp_all add: st'_def)
    have t1: "\<forall>now later. fst (last burst) + 1000 \<le> now \<longrightarrow>
              typing_signals (snd (client_run [(now, TypingTimer), (later, TypingTimer)] st')) = [False]
              \<and> \<not> isTyping (fst (client_step (now, TypingTimer) st'))"
      by (simp add: s typing_timer_fires_def typing_timer_callback_def)
    have t2: "\<forall>now. now < fst (last burst) + 1000 \<longrightarrow> client_step (now, TypingTimer) st' = (st', [])"
      by (simp add: s typing_timer_fires_def)
    have t3: "\<forall>now later. trim (snd (last burst)) \<noteq> [] \<longrightarrow>
              typing_signals (snd (client_run [(now, SendClick), (later, TypingTimer)] st')) = [False]
              \<and> \<not> isTyping (fst (client_step (now, SendClick) st'))
              \<and> typingTimeout (fst (client_step (now, SendClick) st')) = None"
      by (simp add: s client_sendMessage_def Let_def typing_timer_fires_def)
    show ?thesis using b t1 t2 t3 by blast
  qed
  have unnamed: "snd (client_run (inputs burst) st) = []
           \<and> isTyping st' = isTyping st
           \<and> typingTimeout st' = typingTimeout st"
    if "myName st = []"
    using unnamed_burst_run[OF that, of burst] by (simp add: st'_def)
  show ?thesis using named unnamed by blast
qed

theorem typing_signals_per_burst_witness:
  "myName (client_init ''Ann'') \<noteq> []
   \<and> typing_signals (snd (client_run (inputs [(0, ''h''), (300, ''hi'')]) (client_init ''Ann''))) = [True]
   \<and> typing_signals (snd (client_run [(1300, TypingTimer), (5000, TypingTimer)]
        (fst (client_run (inputs [(0, ''h''), (300, ''hi'')]) (client_init ''Ann''))))) = [False]
   \<and> client_step (1299, TypingTimer) (fst (client_run (inputs [(0, ''h''), (300, ''hi'')]) (client_init ''Ann'')))
       = (fst (client_run (inputs [(0, ''h''), (300, ''hi'')]) (client_init ''Ann'')), [])
   \<and> typing_signals (snd (client_run [(400, SendClick), (1300, TypingTimer)]
        (fst (client_run (inputs [(0, ''h''), (300, ''hi'')]) (client_init ''Ann''))))) = [False]
   \<and> myName (client_init []) = []
   \<and> snd (client_run (inputs [(0, ''h''), (300, ''hi'')]) (client_init [])) = []"
proof -
  have n: "myName (client_init ''Ann'') \<noteq> []" by (simp add: client_init_def)
  have i: "\<not> isTyping (client_init ''Ann'')" by (simp add: client_init_def)
  have b: "[(0::nat, ''h''), (300, ''hi'')] \<noteq> []" by simp
  have u: "myName (client_init []) = []" by (simp add: client_init_def)
  note T = typing_signals_per_burst[of "client_init ''Ann''" "[(0, ''h''), (300, ''hi'')]"]
  note U = typing_signals_per_burst[of "client_init []" "[(0, ''h''), (300, ''hi'')]"]
  have l: "fst (last [(0::nat, ''h''), (300, ''hi'')]) + 1000 \<le> (1300::nat)"
          "(1299::nat) < fst (last [(0::nat, ''h''), (300, ''hi'')]) + 1000"
          "trim (snd (last [(0::nat, ''h''), (300, ''hi'')])) \<noteq> []"
    by (simp_all add: trim_hi)
  from U u have u1: "snd (client_run (inputs [(0, ''h''), (300, ''hi'')]) (client_init [])) = []"
    by blast
  from T n b have named: "typing_signals (snd (client_run (inputs [(0, ''h''), (300, ''hi'')]) (client_init ''Ann'')))
            = (if isTyping (client_init ''Ann'') then [] else [True])
     \<and> (\<forall>now later. fst (last [(0::nat, ''h''), (300, ''hi'')]) + 1000 \<le> now \<longrightarrow>
          typing_signals (snd (client_run [(now, TypingTimer), (later, TypingTimer)]
             (fst (client_run (inputs [(0, ''h''), (300, ''hi'')]) (client_init ''Ann''))))) = [False])
     \<and> (\<forall>now. now < fst (last [(0::nat, ''h''), (300, ''hi'')]) + 1000 \<longrightarrow>
          client_step (now, TypingTimer) (fst (client_run (inputs [(0, ''h''), (300, ''hi'')]) (client_init ''Ann'')))
            = (fst (client_run (inputs [(0, ''h''), (300, ''hi'')]) (client_init ''Ann'')), []))
     \<and> (\<forall>now later. trim (snd (last [(0::nat, ''h''), (300, ''hi'')])) \<noteq> [] \<longrightarrow>
          typing_signals (snd (client_run [(now, SendClick), (later, TypingTimer)]
             (fst (client_run (inputs [(0, ''h''), (300, ''hi'')]) (client_init ''Ann''))))) = [False])"
    by blast
  from named i l n u u1 show ?thesis by metis
qed

text \<open>
  C7 as stated fails while no name is set: a burst of input followed by the debounce
  interval emits no stop signal (and no start signal), and a send after input emits the
  message only.
\<close>

theorem typing_stop_unnamed_counterexample:
  "typing_signals (snd (client_run
      [(0, MessageInput ''h''), (300, MessageInput ''hi''), (1300, TypingTimer)] (client_init []))) = []
   \<and> snd (client_run [(0, MessageInput ''hi''), (400, SendClick)] (client_init [])) =
       [SocketEmit ''chat message'' [(''username'', JStr ''Anonymous''), (''text'', JStr ''hi'')] (Some 0)]"
  by (simp add: client_init_def handleTyping_def typing_timer_fires_def client_sendMessage_def
        trim_hi Let_def trim_def is_js_space_def)

section \<open>Client: retry\<close>

lemma retry_click_enabled:
  assumes "elems st l = Some li" and "retry li = Some btn" and "\<not> disabled btn"
  shows "retry_click l st =
           (st\<lparr>elems := (elems st)(l \<mapsto>
                   (classList_add ''pending'' (classList_remove ''error''
                      (li\<lparr>retry := Some (btn\<lparr>disabled := True, label := ''Retrying...''\<rparr>)\<rparr>)))
                   \<lparr>status := Some Retrying\<rparr>),
                acks := (acks st)(next_ack st \<mapsto> RetryAck l),
                next_ack := Suc (next_ack st)\<rparr>,
            [SocketEmit ''chat message''
               [(''username'', JStr (bound_username btn)), (''text'', JStr (bound_text btn))]
               (Some (next_ack st))])"
  using assms by (simp add: retry_click_def Let_def updateMessageElement_status_only)

text \<open>
  The retry path up to its acknowledgement. A click on the enabled retry button of a
  failed entry \<open>l\<close> emits one \<open>chat message\<close> with the sender and text the button is
  bound to, and leaves the list of entries, the \<open>tempId\<close> counter and the pending map as
  they were: only the entry \<open>l\<close> changes. While the
  retried send is in flight the button is disabled and a further click does nothing. When
  the acknowledgement arrives the list is still the same; on success the entry \<open>l\<close> is
  the one delivered entry of this send, without its button, and on failure it is failed
  again with its button enabled and bound as before.
\<close>

lemma retry_click_and_ack:
  fixes st :: client_state and l :: nat
  defines "st1 \<equiv> fst (retry_click l st)"
  assumes "elems st l = Some li" and "retry li = Some btn" and "\<not> disabled btn"
  shows "snd (retry_click l st) =
           [SocketEmit ''chat message''
              [(''username'', JStr (bound_username btn)), (''text'', JStr (bound_text btn))]
              (Some (next_ack st))]
       \<and> messagesEl st1 = messagesEl st \<and> tempIdCounter st1 = tempIdCounter st
       \<and> pendingMessages st1 = pendingMessages st \<and> next_elem st1 = next_elem st
       \<and> (\<forall>l'. l' \<noteq> l \<longrightarrow> elems st1 l' = elems st l')
       \<and> (\<exists>li1. elems st1 l = Some li1 \<and> status li1 = Some Retrying
              \<and> retry li1 = Some (btn\<lparr>disabled := True, label := ''Retrying...''\<rparr>))
       \<and> retry_click l st1 = (st1, [])
       \<and> (\<forall>ack. snd (ack_received (next_ack st) ack st1) = []
              \<and> messagesEl (fst (ack_received (next_ack st) ack st1)) = messagesEl st
              \<and> tempIdCounter (fst (ack_received (next_ack st) ack st1)) = tempIdCounter st
              \<and> pendingMessages (fst (ack_received (next_ack st) ack st1)) = pendingMessages st
              \<and> next_elem (fst (ack_received (next_ack st) ack st1)) = next_elem st
              \<and> (\<forall>l'. l' \<noteq> l \<longrightarrow> elems (fst (ack_received (next_ack st) ack st1)) l' = elems st l')
              \<and> (obj_get ack ''status'' = JStr ''success'' \<longrightarrow>
                   (\<exists>li2. elems (fst (ack_received (next_ack st) ack st1)) l = Some li2
                      \<and> status li2 = Some DeliveredRetried \<and> retry li2 = None
                      \<and> ''me'' \<in> set (classList li2) \<and> ''pending'' \<notin> set (classList li2))
                   \<and> retry_click l (fst (ack_received (next_ack st) ack st1))
                       = (fst (ack_received (next_ack st) ack st1), []))
              \<and> (obj_get ack ''status'' \<noteq> JStr ''success'' \<longrightarrow>
                   (\<exists>li2. elems (fst (ack_received (next_ack st) ack st1)) l = Some li2
                      \<and> status li2 = Some (Failed (obj_get ack ''message''))
                      \<and> retry li2 = Some (btn\<lparr>disabled := False, label := ''Retry''\<rparr>))))"
proof -
  let ?li1 = "(classList_add ''pending'' (classList_remove ''error''
                 (li\<lparr>retry := Some (btn\<lparr>disabled := True, label := ''Retrying...''\<rparr>)\<rparr>)))
              \<lparr>status := Some Retrying\<rparr>"
  have rc: "retry_click l st =
              (st\<lparr>elems := (elems st)(l \<mapsto> ?li1),
                   acks := (acks st)(next_ack st \<mapsto> RetryAck l),
                   next_ack := Suc (next_ack st)\<rparr>,
               [SocketEmit ''chat message''
                  [(''username'', JStr (bound_username btn)), (''text'', JStr (bound_text btn))]
                  (Some (next_ack st))])"
    using retry_click_enabled[OF assms(2,3,4)] .
  have s1: "st1 = st\<lparr>elems := (elems st)(l \<mapsto> ?li1),
                      acks := (acks st)(next_ack st \<mapsto> RetryAck l),
                      next_ack := Suc (next_ack st)\<rparr>"
    by (simp add: st1_def rc)
  have e1: "elems st1 l = Some ?li1" by (simp add: s1)
  have r1: "retry ?li1 = Some (btn\<lparr>disabled := True, label := ''Retrying...''\<rparr>)" by simp
  have p1: "snd (retry_click l st) =
           [SocketEmit ''chat message''
              [(''username'', JStr (bound_username btn)), (''text'', JStr (bound_text btn))]
              (Some (next_ack st))]"
    by (simp add: rc)
  have p2: "messagesEl st1 = messagesEl st \<and> tempIdCounter st1 = tempIdCounter st
       \<and> pendingMessages st1 = pendingMessages st \<and> next_elem st1 = next_elem st
       \<and> (\<forall>l'. l' \<noteq> l \<longrightarrow> elems st1 l' = elems st l')"
    by (simp add: s1)
  have p3: "\<exists>li1. elems st1 l = Some li1 \<and> status li1 = Some Retrying
              \<and> retry li1 = Some (btn\<lparr>disabled := True, label := ''Retrying...''\<rparr>)"
    using e1 r1 by simp
  have p4: "retry_click l st1 = (st1, [])"
    using e1 r1 by (simp add: retry_click_def)
  have ar: "\<And>ack. ack_received (next_ack st) ack st1 =
              retry_ack l ack (st1\<lparr>acks := (acks st1)(next_ack st := None)\<rparr>)"
    by (simp add: ack_received_def s1)
  have p5: "snd (ack_received (next_ack st) ack st1) = []
              \<and> messagesEl (fst (ack_received (next_ack st) ack st1)) = messagesEl st
              \<and> tempIdCounter (fst (ack_received (next_ack st) ack st1)) = tempIdCounter st
              \<and> pendingMessages (fst (ack_received (next_ack st) ack st1)) = pendingMessages st
              \<and> next_elem (fst (ack_received (next_ack st) ack st1)) = next_elem st
              \<and> (\<forall>l'. l' \<noteq> l \<longrightarrow> elems (fst (ack_received (next_ack st) ack st1)) l' = elems st l')" for ack
    by (simp add: ar retry_ack_def upd_elem_elems) (simp add: s1)
  have p6: "(\<exists>li2. elems (fst (ack_received (next_ack st) ack st1)) l = Some li2
                      \<and> status li2 = Some DeliveredRetried \<and> retry li2 = None
                      \<and> ''me'' \<in> set (classList li2) \<and> ''pending'' \<notin> set (classList li2))
                   \<and> retry_click l (fst (ack_received (next_ack st) ack st1))
                       = (fst (ack_received (next_ack st) ack st1), [])"
    if "obj_get ack ''status'' = JStr ''success''" for ack
    using that e1
    by (simp add: ar retry_ack_def upd_elem_elems updateMessageElement_status_only classList_me
          retry_click_def)
  have p7: "\<exists>li2. elems (fst (ack_received (next_ack st) ack st1)) l = Some li2
                      \<and> status li2 = Some (Failed (obj_get ack ''message''))
                      \<and> retry li2 = Some (btn\<lparr>disabled := False, label := ''Retry''\<rparr>)"
    if "obj_get ack ''status'' \<noteq> JStr ''success''" for ack
    using that e1
    by (simp add: ar retry_ack_def upd_elem_elems updateMessageElement_status_only)
  show ?thesis using p1 p2 p3 p4 p5 p6 p7 by blast
qed

lemma retry_click_and_ack_example:
  "elems failed_send 0 = Some failed_entry
   \<and> retry failed_entry = Some \<lparr>disabled = False, label = ''Retry'', bound_username = ''Ann'', bound_text = ''hi''\<rparr>
   \<and> messagesEl failed_send = [0]
   \<and> snd (retry_click 0 failed_send) =
       [SocketEmit ''chat message'' [(''username'', JStr ''Ann''), (''text'', JStr ''hi'')] (Some 1)]
   \<and> messagesEl (fst (retry_click 0 failed_send)) = [0]
   \<and> retry_click 0 (fst (retry_click 0 failed_send)) = (fst (retry_click 0 failed_send), [])
   \<and> messagesEl (fst (ack_received 1 ok_ack (fst (retry_click 0 failed_send)))) = [0]
   \<and> (\<exists>li2. elems (fst (ack_received 1 ok_ack (fst (retry_click 0 failed_send)))) 0 = Some li2
          \<and> status li2 = Some DeliveredRetried \<and> retry li2 = None)"
proof -
  let ?btn = "\<lparr>disabled = False, label = ''Retry'', bound_username = ''Ann'', bound_text = ''hi''\<rparr>"
  have h1: "elems failed_send 0 = Some failed_entry" by (simp add: failed_send_eq)
  have h2: "retry failed_entry = Some ?btn" by (simp add: failed_entry_def)
  have h3: "\<not> disabled ?btn" by simp
  have n: "next_ack failed_send = 1" and m: "messagesEl failed_send = [0]"
    by (simp_all add: failed_send_eq)
  have ok: "obj_get ok_ack ''status'' = JStr ''success''"
    by (simp add: ok_ack_def success_ack_def obj_get_def)
  have b: "bound_username ?btn = ''Ann''" "bound_text ?btn = ''hi''" by simp_all
  note T = retry_click_and_ack[OF h1 h2 h3, unfolded n m b]
  from T have t1: "snd (retry_click 0 failed_send) =
       [SocketEmit ''chat message'' [(''username'', JStr ''Ann''), (''text'', JStr ''hi'')] (Some 1)]"
    by blast
  from T have t2: "messagesEl (fst (retry_click 0 failed_send)) = [0]" by blast
  from T have t3: "retry_click 0 (fst (retry_click 0 failed_send)) = (fst (retry_click 0 failed_send), [])"
    by blast
  from T have t4: "messagesEl (fst (ack_received 1 ok_ack (fst (retry_click 0 failed_send)))) = [0]"
    by blast
  from T ok have t5: "\<exists>li2. elems (fst (ack_received 1 ok_ack (fst (retry_click 0 failed_send)))) 0 = Some li2
          \<and> status li2 = Some DeliveredRetried \<and> retry li2 = None"
    by blast
  show ?thesis using h1 h2 m t1 t2 t3 t4 t5 by blast
qed

subsection \<open>The pending entry of a send is kept as sent\<close>

lemma kept_step:
  assumes "kept n p st"
  shows "kept n p (fst (client_step e st))"
proof -
  obtain now ev where e: "e = (now, ev)" by (cases e)
  have neq: "tempId_of (tempIdCounter st) \<noteq> tempId_of n"
    using assms tempId_of_inj[of "tempIdCounter st" n] by (auto simp: kept_def)
  show ?thesis
  proof (cases ev)
    case (UsernameTyped v)
    then show ?thesis using assms e by (simp add: kept_def)
  next
    case SetUsernameClick
    then show ?thesis using assms e by (simp add: kept_def setUsername_def Let_def)
  next
    case (MessageInput v)
    then show ?thesis using assms e by (simp add: kept_def handleTyping_def Let_def)
  next
    case SendClick
    then show ?thesis using assms e neq
      by (auto simp: kept_def client_sendMessage_def Let_def tempId_of_def)
  next
    case (KeyPress key)
    then show ?thesis using assms e neq
      by (auto simp: kept_def handleKeyPress_def client_sendMessage_def Let_def tempId_of_def)
  next
    case TypingTimer
    then show ?thesis using assms e
      by (simp add: kept_def typing_timer_fires_def typing_timer_callback_def split: option.splits)
  next
    case (AckReceived k a)
    then show ?thesis using assms e
      by (auto simp: kept_def ack_received_def retry_ack_def handleAcknowledgement_pending
            handleAcknowledgement_counter split: option.splits ack_closure.splits)
  next
    case (RetryClick l)
    then show ?thesis using assms e
      by (simp add: kept_def retry_click_def Let_def split: option.splits)
  next
    case (ChatMessage msg)
    then show ?thesis using assms e by (simp add: kept_def handleIncomingMessage_def Let_def)
  next
    case (UserTyping data)
    then show ?thesis using assms e
      by (simp add: kept_def on_user_typing_def showTypingIndicator_def split: option.splits)
  qed
qed

lemma kept_run:
  "kept n p st \<Longrightarrow> kept n p (fst (client_run es st))"
proof (induction es arbitrary: st)
  case Nil
  then show ?case by simp
next
  case (Cons e es)
  have "kept n p (fst (client_step e st))" using Cons.prems by (rule kept_step)
  then have "kept n p (fst (client_run es (fst (client_step e st))))" by (rule Cons.IH)
  then show ?case by (simp add: client_run_Cons del: client_run.simps)
qed

lemma send_registers_pending:
  assumes "trim (msgInput st) \<noteq> []"
  shows "kept (tempIdCounter st)
           \<lparr>p_li = next_elem st, p_username = sender_name st, p_text = trim (msgInput st)\<rparr>
           (fst (client_sendMessage now st))
       \<and> (\<exists>out. snd (client_sendMessage now st) =
              out @ [SocketEmit ''chat message''
                       [(''username'', JStr (sender_name st)), (''text'', JStr (trim (msgInput st)))]
                       (Some (next_ack st))])"
  using assms
  by (simp add: kept_def client_sendMessage_def Let_def tempId_of_def sender_name_def)

lemma failure_adds_button:
  assumes "pendingMessages st tempId = Some p" and "elems st (p_li p) = Some li"
    and "obj_get ack ''status'' \<noteq> JStr ''success''"
  shows "\<exists>li'. elems (fst (handleAcknowledgement tempId ack st)) (p_li p) = Some li'
           \<and> retry li' = Some \<lparr>disabled = False, label = ''Retry'',
                                 bound_username = p_username p, bound_text = p_text p\<rparr>"
  using assms
  by (simp add: handleAcknowledgement_def Let_def upd_elem_def addRetryButton_def)

text \<open>
  Whatever happens on the page between a send and its failed acknowledgement (the name
  is changed, other messages are sent or arrive), the retry button is bound to the sender
  and the text that the send emitted.
\<close>

lemma retry_bound_to_original:
  fixes st :: client_state and now :: nat and es :: "(nat \<times> client_event) list"
  defines "tempId \<equiv> tempId_of (tempIdCounter st)"
  defines "st2 \<equiv> fst (client_run es (fst (client_sendMessage now st)))"
  assumes "trim (msgInput st) \<noteq> []"
    and "pendingMessages st2 tempId = Some p" and "elems st2 (p_li p) = Some li"
    and "obj_get ack ''status'' \<noteq> JStr ''success''"
  shows "\<exists>li'. elems (fst (handleAcknowledgement tempId ack st2)) (p_li p) = Some li'
           \<and> p_li p = next_elem st
           \<and> retry li' = Some \<lparr>disabled = False, label = ''Retry'',
                                 bound_username = sender_name st, bound_text = trim (msgInput st)\<rparr>"
proof -
  let ?p0 = "\<lparr>p_li = next_elem st, p_username = sender_name st, p_text = trim (msgInput st)\<rparr>"
  have "kept (tempIdCounter st) ?p0 (fst (client_sendMessage now st))"
    using send_registers_pending[OF assms(3)] by blast
  then have "kept (tempIdCounter st) ?p0 st2"
    unfolding st2_def by (rule kept_run)
  then have p: "p = ?p0" using assms(4) by (simp add: kept_def tempId_def)
  show ?thesis
    using failure_adds_button[OF assms(4) assms(5) assms(6)] p by simp
qed



section \<open>Client: incoming messages\<close>

text \<open>
  What \<open>handleIncomingMessage\<close> does. A message whose sender equals the local name and
  that is marked as a broadcast and not as the client's own is dropped. Every other
  message becomes a new last entry that is never pending, with status \<open>Sent\<close> or
  \<open>Received\<close>, marked \<open>me\<close> exactly when its sender equals the local name; the entries
  before it stay as they were. The pending map is neither read nor changed.
\<close>

lemma handleIncomingMessage_effect:
  fixes msg :: jsobj and st :: client_state
  defines "st' \<equiv> fst (handleIncomingMessage msg st)"
  defines "own_broadcast \<equiv> obj_get msg ''sender'' = JStr (myName st) \<and> truthy (obj_get msg ''isBroadcast'')
                              \<and> \<not> truthy (obj_get msg ''isOwnMessage'')"
  shows "snd (handleIncomingMessage msg st) = []
       \<and> pendingMessages st' = pendingMessages st
       \<and> handleIncomingMessage msg (st\<lparr>pendingMessages := p\<rparr>) = (st'\<lparr>pendingMessages := p\<rparr>, [])
       \<and> (own_broadcast \<longrightarrow> st' = st)
       \<and> (\<not> own_broadcast \<longrightarrow>
            messagesEl st' = messagesEl st @ [next_elem st]
            \<and> (\<forall>l. l \<noteq> next_elem st \<longrightarrow> elems st' l = elems st l)
            \<and> (\<exists>li. elems st' (next_elem st) = Some li
                  \<and> content_sender li = obj_get msg ''sender''
                  \<and> content_text li = obj_get msg ''text''
                  \<and> messageId li = obj_get msg ''id''
                  \<and> ''pending'' \<notin> set (classList li)
                  \<and> (''me'' \<in> set (classList li) \<longleftrightarrow> obj_get msg ''sender'' = JStr (myName st))
                  \<and> status li = Some (if truthy (obj_get msg ''isOwnMessage'') then Sent else Received)
                  \<and> retry li = None))"
  by (simp add: st'_def own_broadcast_def handleIncomingMessage_def Let_def createMessageElement_def
        classList_add_def)

text \<open>
  C9. A broadcast that did not come from this client's own send is not always rendered.
  Ann sends \<open>hi\<close> from the session \<open>a\<close>; the server delivers the broadcast to the
  sessions \<open>b\<close> and \<open>c\<close> and not to \<open>a\<close>. A client of another session whose local
  name is also \<open>Ann\<close>, which has sent nothing and has nothing pending, receives it and
  drops it: nothing is rendered.
\<close>

theorem same_name_broadcast_dropped:
  "snd (on_chat_message mem_create ''a'' ann_hi False three_sessions) =
     [Emit ''b'' ''chat message'' (broadcastData_of ann_row),
      Emit ''c'' ''chat message'' (broadcastData_of ann_row)]
   \<and> obj_get (broadcastData_of ann_row) ''sender'' = JStr (myName (client_init ''Ann''))
   \<and> messagesEl (client_init ''Ann'') = []
   \<and> pendingMessages (client_init ''Ann'') = Map.empty
   \<and> handleIncomingMessage (broadcastData_of ann_row) (client_init ''Ann'') = (client_init ''Ann'', [])"
proof -
  have s: "snd (on_chat_message mem_create ''a'' ann_hi False three_sessions) =
     [Emit ''b'' ''chat message'' (broadcastData_of ann_row),
      Emit ''c'' ''chat message'' (broadcastData_of ann_row)]"
    by (simp add: on_chat_message_def sendMessage_def saveMessage_def mem_create_def
        ann_hi_def obj_get_def js_or_def three_sessions_eq trim_hi Let_def
        broadcastExcept_def socket_broadcast_emit_def ann_row_def)
  have n: "obj_get (broadcastData_of ann_row) ''sender'' = JStr (myName (client_init ''Ann''))"
    by (simp add: broadcastData_of_def ann_row_def obj_get_def client_init_def)
  have e: "messagesEl (client_init ''Ann'') = []" "pendingMessages (client_init ''Ann'') = Map.empty"
    by (simp_all add: client_init_def)
  have d: "handleIncomingMessage (broadcastData_of ann_row) (client_init ''Ann'') = (client_init ''Ann'', [])"
    by (simp add: handleIncomingMessage_def n) (simp add: broadcastData_of_def obj_get_def)
  show ?thesis using s n e d by blast
qed

text \<open>A broadcast under another name is rendered, as received.\<close>

lemma other_name_broadcast_rendered:
  "messagesEl (fst (handleIncomingMessage bob_broadcast (client_init ''Ann''))) = [0]
   \<and> (\<exists>li. elems (fst (handleIncomingMessage bob_broadcast (client_init ''Ann''))) 0 = Some li
          \<and> content_sender li = JStr ''Bob'' \<and> content_text li = JStr ''hello''
          \<and> status li = Some Received)"
  by (simp add: handleIncomingMessage_def bob_broadcast_def broadcastData_of_def obj_get_def
        client_init_def createMessageElement_def Let_def)

section \<open>Client: acknowledgements\<close>

text \<open>
  C10. The first call of \<open>handleAcknowledgement\<close> for a \<open>tempId\<close> takes it out of the
  pending map, and then updates the entry in place (to delivered or to failed), the list
  of entries staying as it is. A call with the same \<open>tempId\<close> right after, or after any
  further events of the page when the \<open>tempId\<close> is one that \<open>sendMessage\<close> gave out,
  returns at once: state and list unchanged, nothing emitted.
\<close>

theorem acknowledgement_processed_once:
  fixes st :: client_state and tempId :: string and a :: jsobj
  defines "st1 \<equiv> fst (handleAcknowledgement tempId a st)"
  shows "pendingMessages st1 tempId = None
       \<and> messagesEl st1 = messagesEl st
       \<and> handleAcknowledgement tempId a' st1 = (st1, [])
       \<and> (\<forall>n es. tempId = tempId_of n \<and> n < tempIdCounter st \<longrightarrow>
            handleAcknowledgement tempId a' (fst (client_run es st1)) = (fst (client_run es st1), []))
       \<and> (\<forall>p li. pendingMessages st tempId = Some p \<and> elems st (p_li p) = Some li \<longrightarrow>
            (\<exists>li'. elems st1 (p_li p) = Some li'
               \<and> status li' = Some (if obj_get a ''status'' = JStr ''success'' then Delivered
                                     else Failed (js_or (obj_get a ''message'') (obj_get a ''error'')))))"
proof -
  have p: "pendingMessages st1 tempId = None"
    by (simp add: st1_def handleAcknowledgement_pending)
  have m: "messagesEl st1 = messagesEl st"
    by (simp add: st1_def handleAcknowledgement_def Let_def split: option.splits)
  have c: "tempIdCounter st1 = tempIdCounter st"
    by (simp add: st1_def handleAcknowledgement_counter)
  have again: "handleAcknowledgement tempId a' st2 = (st2, [])" if "pendingMessages st2 tempId = None" for st2
    using that by (simp add: handleAcknowledgement_def)
  have later: "handleAcknowledgement tempId a' (fst (client_run es st1)) = (fst (client_run es st1), [])"
    if "tempId = tempId_of n \<and> n < tempIdCounter st" for n es
  proof -
    have "settled n st1" using that p c by (simp add: settled_def)
    then have "settled n (fst (client_run es st1))" by (rule settled_run)
    then show ?thesis using that again by (simp add: settled_def)
  qed
  have ui: "\<exists>li'. elems st1 (p_li p) = Some li'
               \<and> status li' = Some (if obj_get a ''status'' = JStr ''success'' then Delivered
                                     else Failed (js_or (obj_get a ''message'') (obj_get a ''error'')))"
    if "pendingMessages st tempId = Some p \<and> elems st (p_li p) = Some li" for p li
    using that
    by (simp add: st1_def handleAcknowledgement_def Let_def upd_elem_elems upd_elem_def
          updateMessageElement_def no_updates_def given_def addRetryButton_def)
  show ?thesis using p m again later ui by blast
qed

theorem acknowledgement_processed_once_witness:
  "''temp-1'' = tempId_of 1 \<and> 1 < tempIdCounter sent_hi
   \<and> pendingMessages sent_hi ''temp-1'' = Some \<lparr>p_li = 0, p_username = ''Ann'', p_text = ''hi''\<rparr>
   \<and> pendingMessages (fst (handleAcknowledgement ''temp-1'' ok_ack sent_hi)) ''temp-1'' = None
   \<and> handleAcknowledgement ''temp-1'' err_ack
        (fst (client_run [(300, MessageInput ''yo''), (400, SendClick)]
                (fst (handleAcknowledgement ''temp-1'' ok_ack sent_hi))))
       = (fst (client_run [(300, MessageInput ''yo''), (400, SendClick)]
                (fst (handleAcknowledgement ''temp-1'' ok_ack sent_hi))), [])
   \<and> (\<exists>li'. elems (fst (handleAcknowledgement ''temp-1'' ok_ack sent_hi)) 0 = Some li'
          \<and> status li' = Some Delivered)"
proof -
  let ?p = "\<lparr>p_li = 0, p_username = ''Ann'', p_text = ''hi''\<rparr>"
  let ?li = "createMessageElement ''Ann'' (JStr ''temp-1'') (JStr ''Ann'') (JStr ''hi'') (JDate 100) True Sending"
  have t: "''temp-1'' = tempId_of 1" by (simp add: tempId_of_def show_nat_1)
  have c: "1 < tempIdCounter sent_hi" by (simp add: sent_hi_eq)
  have h: "pendingMessages sent_hi ''temp-1'' = Some ?p" by (simp add: sent_hi_eq)
  have e: "elems sent_hi (p_li ?p) = Some ?li" by (simp add: sent_hi_eq)
  have ok: "obj_get ok_ack ''status'' = JStr ''success''"
    by (simp add: ok_ack_def success_ack_def obj_get_def)
  note T = acknowledgement_processed_once[of "''temp-1''" ok_ack sent_hi err_ack]
  from T have t1: "pendingMessages (fst (handleAcknowledgement ''temp-1'' ok_ack sent_hi)) ''temp-1'' = None"
    by blast
  from T t c have t2: "handleAcknowledgement ''temp-1'' err_ack
        (fst (client_run [(300, MessageInput ''yo''), (400, SendClick)]
                (fst (handleAcknowledgement ''temp-1'' ok_ack sent_hi))))
       = (fst (client_run [(300, MessageInput ''yo''), (400, SendClick)]
                (fst (handleAcknowledgement ''temp-1'' ok_ack sent_hi))), [])"
    by blast
  from T h e have "\<exists>li'. elems (fst (handleAcknowledgement ''temp-1'' ok_ack sent_hi)) (p_li ?p) = Some li'
          \<and> status li' = Some (if obj_get ok_ack ''status'' = JStr ''success'' then Delivered
                                else Failed (js_or (obj_get ok_ack ''message'') (obj_get ok_ack ''error'')))"
    by blast
  then have t3: "\<exists>li'. elems (fst (handleAcknowledgement ''temp-1'' ok_ack sent_hi)) 0 = Some li'
          \<and> status li' = Some Delivered"
    using ok by simp
  show ?thesis using t c h t1 t2 t3 by blast
qed

end
